theory Spec2Isabelle
  imports Complex_Main "HOL-Library.Word"
begin

section \<open>JavaScript values\<close>

text \<open>
  A JavaScript string is a sequence of UTF-16 code units; \<open>length\<close> counts code units.
  String literals of the source are written with \<open>js\<close>.
\<close>

type_synonym js_char = "16 word"
type_synonym js_string = "js_char list"

definition js :: "string \<Rightarrow> js_string" where
  "js s = map of_char s"

text \<open>
  The code units removed by \<open>String.prototype.trim\<close> and matched by \<open>\s\<close> in a regular
  expression: WhiteSpace and LineTerminator of ECMAScript.
\<close>

definition is_white_space :: "js_char \<Rightarrow> bool" where
  "is_white_space c =
     (c = 0x0009 \<or> c = 0x000A \<or> c = 0x000B \<or> c = 0x000C \<or> c = 0x000D \<or> c = 0x0020
      \<or> c = 0x00A0 \<or> c = 0x1680 \<or> (0x2000 \<le> c \<and> c \<le> 0x200A)
      \<or> c = 0x2028 \<or> c = 0x2029 \<or> c = 0x202F \<or> c = 0x205F \<or> c = 0x3000 \<or> c = 0xFEFF)"

text \<open>The class \<open>\d\<close>: the ten ASCII digits. \<open>\D\<close> is its complement.\<close>

definition is_digit :: "js_char \<Rightarrow> bool" where
  "is_digit c = (0x0030 \<le> c \<and> c \<le> 0x0039)"

definition trim :: "js_string \<Rightarrow> js_string" where
  "trim s = rev (dropWhile is_white_space (rev (dropWhile is_white_space s)))"

text \<open>Truthiness of a string, and of a value that is a string or null/undefined.\<close>

definition truthy :: "js_string \<Rightarrow> bool" where
  "truthy s = (s \<noteq> [])"

definition truthy_opt :: "js_string option \<Rightarrow> bool" where
  "truthy_opt v = (case v of None \<Rightarrow> False | Some s \<Rightarrow> truthy s)"

text \<open>\<open>a || b\<close> on strings, and on an optional string with a string default.\<close>

definition or_else :: "js_string \<Rightarrow> js_string \<Rightarrow> js_string" where
  "or_else a b = (if truthy a then a else b)"

definition opt_or_else :: "js_string option \<Rightarrow> js_string \<Rightarrow> js_string" where
  "opt_or_else v b = (case v of None \<Rightarrow> b | Some a \<Rightarrow> or_else a b)"

text \<open>\<open>v || undefined\<close>: null and the empty string both become undefined.\<close>

definition or_undefined :: "js_string option \<Rightarrow> js_string option" where
  "or_undefined v = (if truthy_opt v then v else None)"

fun starts_with :: "js_string \<Rightarrow> js_string \<Rightarrow> bool" where
  "starts_with s [] = True"
| "starts_with [] (p # ps) = False"
| "starts_with (c # cs) (p # ps) = (c = p \<and> starts_with cs ps)"

text \<open>\<open>s.includes(t)\<close>: \<open>t\<close> occurs in \<open>s\<close> as a contiguous run.\<close>

fun str_includes :: "js_string \<Rightarrow> js_string \<Rightarrow> bool" where
  "str_includes [] t = (t = [])"
| "str_includes (c # cs) t = (starts_with (c # cs) t \<or> str_includes cs t)"

subsection \<open>Numbers\<close>

text \<open>
  Identifiers, quantities, page numbers and HTTP status codes are integers. A value that
  \<open>parseInt\<close> produces is a double: an integer that a double holds, an infinity, or
  \<open>NaN\<close>. Amounts of money are only ever copied by the code modelled here and are
  rationals.
\<close>

datatype js_number = Num int | NaN | Infinity | NegInfinity

type_synonym amount = rat

definition digit_char :: "nat \<Rightarrow> js_char" where
  "digit_char d = of_nat (48 + d)"

function dec_digits :: "nat \<Rightarrow> js_string" where
  "dec_digits n = (if n < 10 then [digit_char n] else dec_digits (n div 10) @ [digit_char (n mod 10)])"
  by pat_completeness auto
termination
  by (relation "measure (\<lambda>n. n)") auto

declare dec_digits.simps [simp del]

text \<open>\<open>Number.prototype.toString\<close> on an integer.\<close>

definition number_toString :: "int \<Rightarrow> js_string" where
  "number_toString i = (if i < 0 then js ''-'' @ dec_digits (nat (- i)) else dec_digits (nat i))"

text \<open>The value of a code unit as a digit of the given radix (10 or 16), if it is one.\<close>

definition radix_digit :: "nat \<Rightarrow> js_char \<Rightarrow> nat option" where
  "radix_digit r c =
     (if 0x0030 \<le> c \<and> c \<le> 0x0039 then Some (unat c - 48)
      else if r = 16 \<and> 0x0061 \<le> c \<and> c \<le> 0x0066 then Some (unat c - 87)
      else if r = 16 \<and> 0x0041 \<le> c \<and> c \<le> 0x0046 then Some (unat c - 55)
      else None)"

definition radix_value :: "nat \<Rightarrow> js_string \<Rightarrow> nat" where
  "radix_value r z = foldl (\<lambda>acc c. acc * r + (case radix_digit r c of None \<Rightarrow> 0 | Some d \<Rightarrow> d)) 0 z"

text \<open>The number of binary digits of a natural number.\<close>

function bits :: "nat \<Rightarrow> nat" where
  "bits n = (if n = 0 then 0 else Suc (bits (n div 2)))"
  by pat_completeness auto
termination
  by (relation "measure (\<lambda>n. n)") auto

declare bits.simps [simp del]

text \<open>
  The double nearest to a natural number, ties to the even significand: up to \<open>2^53\<close> the
  number itself; above, the number with its digits below the leading 53 rounded away;
  \<open>None\<close> when the result is \<open>2^1024\<close> or more, which no double holds.
\<close>

definition round_to_double :: "nat \<Rightarrow> nat option" where
  "round_to_double v =
     (if v \<le> 2 ^ 53 then Some v
      else let e = bits v - 53;
               q = v div 2 ^ e;
               r = v mod 2 ^ e;
               half = 2 ^ (e - 1);
               m = (if r > half \<or> (r = half \<and> odd q) then q + 1 else q)
           in if m * 2 ^ e \<ge> 2 ^ 1024 then None else Some (m * 2 ^ e))"

text \<open>The Number for a sign and a magnitude. Negative zero is \<open>Num 0\<close>.\<close>

definition to_number :: "bool \<Rightarrow> nat \<Rightarrow> js_number" where
  "to_number neg v =
     (case round_to_double v of
        None \<Rightarrow> (if neg then NegInfinity else Infinity)
      | Some m \<Rightarrow> Num (if neg then - int m else int m))"

text \<open>
  \<open>parseInt(str)\<close> with no radix: leading white space is skipped, a sign is read, a
  \<open>0x\<close>/\<open>0X\<close> prefix selects radix 16, the longest run of digits is converted, and
  \<open>NaN\<close> is returned when that run is empty. The integer the digits denote is returned
  as a Number, so it is rounded to the nearest double. (For a decimal run of more than 20
  significant digits ECMAScript leaves the digits after the 20th to the implementation;
  the rounding here is the exact one.)
\<close>

definition parseInt :: "js_string \<Rightarrow> js_number" where
  "parseInt str =
     (let s = dropWhile is_white_space str;
          neg = starts_with s (js ''-'');
          s1 = (if starts_with s (js ''+'') \<or> starts_with s (js ''-'') then tl s else s);
          hex = (starts_with s1 (js ''0x'') \<or> starts_with s1 (js ''0X''));
          r = (if hex then 16 else 10);
          s2 = (if hex then drop 2 s1 else s1);
          z = takeWhile (\<lambda>c. radix_digit r c \<noteq> None) s2
      in if z = [] then NaN else to_number neg (radix_value r z))"

section \<open>Validation functions (components/order-modal.tsx)\<close>

text \<open>
  The regular expressions of the source are anchored sequences of literal code units and
  of \<open>[class]+\<close> runs; \<open>regex_test\<close> is \<open>RegExp.prototype.test\<close> on such a pattern
  (no \<open>g\<close> flag, so no state is kept between calls).
\<close>

datatype atom = Lit js_char | OneOrMore "js_char \<Rightarrow> bool"

fun regex_test :: "atom list \<Rightarrow> js_string \<Rightarrow> bool" where
  "regex_test [] s = (s = [])"
| "regex_test (Lit c # as) [] = False"
| "regex_test (Lit c # as) (x # xs) = (x = c \<and> regex_test as xs)"
| "regex_test (OneOrMore p # as) [] = False"
| "regex_test (OneOrMore p # as) (x # xs) =
     (p x \<and> (regex_test (OneOrMore p # as) xs \<or> regex_test as xs))"

text \<open>The class \<open>[^\s@]\<close>.\<close>

definition not_space_or_at :: "js_char \<Rightarrow> bool" where
  "not_space_or_at c = (\<not> is_white_space c \<and> c \<noteq> 0x0040)"

text \<open>\<open>/^[^\s@]+@[^\s@]+\.[^\s@]+$/\<close>\<close>

definition emailRegex :: "atom list" where
  "emailRegex = [OneOrMore not_space_or_at, Lit 0x0040, OneOrMore not_space_or_at, Lit 0x002E,
                 OneOrMore not_space_or_at]"

definition validateEmail :: "js_string \<Rightarrow> js_string option" where
  "validateEmail email =
     (if \<not> truthy (trim email) then None
      else if \<not> regex_test emailRegex email then Some (js ''Please enter a valid email address'')
      else None)"

definition validatePhoneNumber :: "js_string \<Rightarrow> js_string option" where
  "validatePhoneNumber phone =
     (if \<not> truthy (trim phone) then None
      else let cleanPhone = filter is_digit phone
           in if length cleanPhone < 10 then Some (js ''Phone number must be at least 10 digits'')
              else if length cleanPhone > 15 then Some (js ''Phone number cannot exceed 15 digits'')
              else None)"

section \<open>API types (lib/types.ts)\<close>

text \<open>
  The interfaces of the source as records. A field declared \<open>T | null\<close> or \<open>name?: T\<close> is an
  option. The status and payment fields are strings at run time and are kept as strings.
\<close>

record backend_order_item =
  bi_id :: int
  bi_item_name :: js_string
  bi_item_price :: amount
  bi_quantity :: int
  bi_special_instructions :: "js_string option"
  bi_subtotal :: amount

record backend_order =
  bo_id :: int
  bo_customer_name :: js_string
  bo_customer_phone :: js_string
  bo_customer_email :: "js_string option"
  bo_total_amount :: amount
  bo_order_status :: js_string
  bo_payment_status :: js_string
  bo_payment_method :: "js_string option"
  bo_special_instructions :: "js_string option"
  bo_delivery_address :: "js_string option"
  bo_order_date :: js_string
  bo_estimated_delivery_time :: "js_string option"
  bo_actual_delivery_time :: "js_string option"
  bo_cancelled_at :: "js_string option"
  bo_cancelled_reason :: "js_string option"
  bo_cancelled_by :: "js_string option"
  bo_items :: "backend_order_item list"
  bo_created_at :: js_string
  bo_updated_at :: js_string

record order_item =
  oi_id :: int
  oi_itemName :: js_string
  oi_itemPrice :: amount
  oi_quantity :: int
  oi_specialInstructions :: "js_string option"
  oi_subtotal :: amount

record order =
  o_id :: int
  o_customerName :: js_string
  o_customerPhone :: js_string
  o_customerEmail :: "js_string option"
  o_totalAmount :: amount
  o_orderStatus :: js_string
  o_paymentStatus :: js_string
  o_paymentMethod :: "js_string option"
  o_specialInstructions :: "js_string option"
  o_deliveryAddress :: "js_string option"
  o_orderDate :: js_string
  o_estimatedDeliveryTime :: "js_string option"
  o_actualDeliveryTime :: "js_string option"
  o_cancelledAt :: "js_string option"
  o_cancelledReason :: "js_string option"
  o_cancelledBy :: "js_string option"
  o_items :: "order_item list"
  o_createdAt :: js_string
  o_updatedAt :: js_string

record submission_item =
  si_menuItemId :: js_number
  si_quantity :: int
  si_specialInstructions :: "js_string option"

record order_submission =
  os_customerName :: js_string
  os_customerPhone :: js_string
  os_customerEmail :: "js_string option"
  os_items :: "submission_item list"
  os_paymentMethod :: "js_string option"
  os_specialInstructions :: "js_string option"
  os_deliveryAddress :: "js_string option"

record order_status_update =
  su_status :: js_string
  su_changedBy :: "js_string option"
  su_notes :: "js_string option"

text \<open>The envelope \<open>ApiResponse<T>\<close> and its extension \<open>OrdersListResponse\<close>.\<close>

record 'a api_response =
  ar_success :: bool
  ar_message :: "js_string option"
  ar_data :: 'a

record orders_list_response = "backend_order list api_response" +
  lr_totalCount :: int
  lr_totalPages :: int
  lr_currentPage :: int

section \<open>The network\<close>

text \<open>
  A thrown value is an \<open>Error\<close> (with its message) or something that is not an
  \<open>Error\<close>. A call of \<open>fetch\<close> is rejected with a thrown value, or resolves to a response
  with its \<open>ok\<close> flag, its status and the outcome of \<open>response.json()\<close>, which throws or
  yields the parsed body. Bodies are taken to have the shape the source declares for them.
\<close>

datatype js_thrown = JsError js_string | NonError

datatype 'a http_result = Rejected js_thrown | Response bool int "js_thrown + 'a"

text \<open>The JSON body of \<open>PUT /orders/{id}/status\<close>.\<close>

record status_body =
  sb_status :: js_string
  sb_changedBy :: js_string
  sb_notes :: "js_string option"

text \<open>
  The requests the modelled code issues, and the backend as what it answers to each.
  The query string of \<open>GET /orders\<close> is the list of appended key-value pairs.
\<close>

datatype http_request =
    GET_menu_test
  | POST_menu_test "js_number list"
  | POST_orders order_submission
  | GET_orders "(js_string \<times> js_string) list"
  | PUT_order_status int status_body

record network =
  get_menu_test :: "unit http_result"
  post_menu_test :: "js_number list \<Rightarrow> unit api_response http_result"
  post_orders :: "order_submission \<Rightarrow> backend_order api_response http_result"
  get_orders :: "(js_string \<times> js_string) list \<Rightarrow> orders_list_response http_result"
  put_order_status :: "int \<Rightarrow> status_body \<Rightarrow> unit api_response http_result"

section \<open>Order API client (lib/order-api.ts)\<close>

definition transformOrderItem :: "backend_order_item \<Rightarrow> order_item" where
  "transformOrderItem item =
     \<lparr> oi_id = bi_id item,
       oi_itemName = bi_item_name item,
       oi_itemPrice = bi_item_price item,
       oi_quantity = bi_quantity item,
       oi_specialInstructions = or_undefined (bi_special_instructions item),
       oi_subtotal = bi_subtotal item \<rparr>"

definition transformOrder :: "backend_order \<Rightarrow> order" where
  "transformOrder backendOrder =
     \<lparr> o_id = bo_id backendOrder,
       o_customerName = bo_customer_name backendOrder,
       o_customerPhone = bo_customer_phone backendOrder,
       o_customerEmail = or_undefined (bo_customer_email backendOrder),
       o_totalAmount = bo_total_amount backendOrder,
       o_orderStatus = bo_order_status backendOrder,
       o_paymentStatus = bo_payment_status backendOrder,
       o_paymentMethod = or_undefined (bo_payment_method backendOrder),
       o_specialInstructions = or_undefined (bo_special_instructions backendOrder),
       o_deliveryAddress = or_undefined (bo_delivery_address backendOrder),
       o_orderDate = bo_order_date backendOrder,
       o_estimatedDeliveryTime = or_undefined (bo_estimated_delivery_time backendOrder),
       o_actualDeliveryTime = or_undefined (bo_actual_delivery_time backendOrder),
       o_cancelledAt = or_undefined (bo_cancelled_at backendOrder),
       o_cancelledReason = or_undefined (bo_cancelled_reason backendOrder),
       o_cancelledBy = or_undefined (bo_cancelled_by backendOrder),
       o_items = map transformOrderItem (bo_items backendOrder),
       o_createdAt = bo_created_at backendOrder,
       o_updatedAt = bo_updated_at backendOrder \<rparr>"

text \<open>
  Each function of the client returns its result (\<open>Inl\<close> what it throws) together with
  the requests it issued, in order.
\<close>

definition checkItemsAvailability ::
  "network \<Rightarrow> js_number list \<Rightarrow> (js_thrown + bool) \<times> http_request list" where
  "checkItemsAvailability net itemIds =
     (case get_menu_test net of
        Rejected error \<Rightarrow> (Inl error, [GET_menu_test])
      | Response getOk getStatus getBody \<Rightarrow>
          (case post_menu_test net itemIds of
             Rejected error \<Rightarrow> (Inl error, [GET_menu_test, POST_menu_test itemIds])
           | Response ok status body \<Rightarrow>
               (if \<not> ok then
                  (case body of
                     Inl error \<Rightarrow> (Inl error, [GET_menu_test, POST_menu_test itemIds])
                   | Inr errorData \<Rightarrow>
                       (Inl (JsError (opt_or_else (ar_message errorData)
                                        (js ''Failed to check item availability''))),
                        [GET_menu_test, POST_menu_test itemIds]))
                else
                  (case body of
                     Inl error \<Rightarrow> (Inl error, [GET_menu_test, POST_menu_test itemIds])
                   | Inr availabilityResponse \<Rightarrow>
                       (Inr True, [GET_menu_test, POST_menu_test itemIds])))))"

definition placeOrder ::
  "network \<Rightarrow> order_submission \<Rightarrow> (js_thrown + order) \<times> http_request list" where
  "placeOrder net orderData =
     (let itemIds = map si_menuItemId (os_items orderData);
          (available, checked) = checkItemsAvailability net itemIds
      in case available of
           Inl error \<Rightarrow>
             (Inl (JsError (js ''Some menu items are not available. Please refresh your cart and try again.'')),
              checked)
         | Inr _ \<Rightarrow>
             (case post_orders net orderData of
                Rejected error \<Rightarrow> (Inl error, checked @ [POST_orders orderData])
              | Response ok status body \<Rightarrow>
                  (if \<not> ok then
                     (case body of
                        Inl error \<Rightarrow> (Inl error, checked @ [POST_orders orderData])
                      | Inr errorData \<Rightarrow>
                          (Inl (JsError (opt_or_else (ar_message errorData)
                                           (js ''HTTP error! status: '' @ number_toString status))),
                           checked @ [POST_orders orderData]))
                   else
                     (case body of
                        Inl error \<Rightarrow> (Inl error, checked @ [POST_orders orderData])
                      | Inr apiResponse \<Rightarrow>
                          (if \<not> ar_success apiResponse then
                             (Inl (JsError (opt_or_else (ar_message apiResponse)
                                              (js ''Failed to place order''))),
                              checked @ [POST_orders orderData])
                           else
                             (Inr (transformOrder (ar_data apiResponse)),
                              checked @ [POST_orders orderData]))))))"

text \<open>The parameter object of \<open>fetchAllOrders\<close>; every property is optional.\<close>

record fetch_orders_params =
  fp_page :: "int option"
  fp_limit :: "int option"
  fp_status :: "js_string option"
  fp_paymentStatus :: "js_string option"
  fp_phone :: "js_string option"
  fp_sortBy :: "js_string option"
  fp_order :: "js_string option"
  fp_includeCancelled :: "bool option"

record fetched_orders =
  fo_orders :: "order list"
  fo_totalCount :: int
  fo_totalPages :: int
  fo_currentPage :: int

text \<open>\<open>if (params?.k) queryParams.append(key, value)\<close> for a number and for a string.\<close>

definition append_number ::
  "js_string \<Rightarrow> int option \<Rightarrow> (js_string \<times> js_string) list \<Rightarrow> (js_string \<times> js_string) list" where
  "append_number key v q =
     (case v of None \<Rightarrow> q | Some n \<Rightarrow> if n \<noteq> 0 then q @ [(key, number_toString n)] else q)"

definition append_string ::
  "js_string \<Rightarrow> js_string option \<Rightarrow> (js_string \<times> js_string) list \<Rightarrow> (js_string \<times> js_string) list" where
  "append_string key v q =
     (case v of None \<Rightarrow> q | Some str \<Rightarrow> if truthy str then q @ [(key, str)] else q)"

definition queryParams :: "fetch_orders_params \<Rightarrow> (js_string \<times> js_string) list" where
  "queryParams params =
     (let q1 = append_number (js ''page'') (fp_page params) [];
          q2 = append_number (js ''limit'') (fp_limit params) q1;
          q3 = append_string (js ''status'') (fp_status params) q2;
          q4 = append_string (js ''paymentStatus'') (fp_paymentStatus params) q3;
          q5 = append_string (js ''phone'') (fp_phone params) q4;
          q6 = append_string (js ''sortBy'') (fp_sortBy params) q5;
          q7 = append_string (js ''order'') (fp_order params) q6
      in case fp_includeCancelled params of
           None \<Rightarrow> q7
         | Some b \<Rightarrow> q7 @ [(js ''includeCancelled'', if b then js ''true'' else js ''false'')])"

definition fetchAllOrders ::
  "network \<Rightarrow> fetch_orders_params \<Rightarrow> (js_thrown + fetched_orders) \<times> http_request list" where
  "fetchAllOrders net params =
     (let q = queryParams params
      in case get_orders net q of
           Rejected error \<Rightarrow> (Inl error, [GET_orders q])
         | Response ok status body \<Rightarrow>
             (if \<not> ok then
                (Inl (JsError (js ''HTTP error! status: '' @ number_toString status)), [GET_orders q])
              else
                (case body of
                   Inl error \<Rightarrow> (Inl error, [GET_orders q])
                 | Inr apiResponse \<Rightarrow>
                     (if \<not> ar_success apiResponse then
                        (Inl (JsError (opt_or_else (ar_message apiResponse)
                                         (js ''Failed to fetch orders''))),
                         [GET_orders q])
                      else
                        (Inr \<lparr> fo_orders = map transformOrder (ar_data apiResponse),
                                fo_totalCount = lr_totalCount apiResponse,
                                fo_totalPages = lr_totalPages apiResponse,
                                fo_currentPage = lr_currentPage apiResponse \<rparr>,
                         [GET_orders q])))))"

definition updateOrderStatus ::
  "network \<Rightarrow> int \<Rightarrow> order_status_update \<Rightarrow> (js_thrown + unit) \<times> http_request list" where
  "updateOrderStatus net orderId statusUpdate =
     (let sent = \<lparr> sb_status = su_status statusUpdate,
                    sb_changedBy = opt_or_else (su_changedBy statusUpdate) (js ''admin''),
                    sb_notes = su_notes statusUpdate \<rparr>
      in case put_order_status net orderId sent of
           Rejected error \<Rightarrow> (Inl error, [PUT_order_status orderId sent])
         | Response ok status body \<Rightarrow>
             (if \<not> ok then
                (case body of
                   Inl error \<Rightarrow> (Inl error, [PUT_order_status orderId sent])
                 | Inr errorData \<Rightarrow>
                     (Inl (JsError (opt_or_else (ar_message errorData)
                                      (js ''HTTP error! status: '' @ number_toString status))),
                      [PUT_order_status orderId sent]))
              else
                (case body of
                   Inl error \<Rightarrow> (Inl error, [PUT_order_status orderId sent])
                 | Inr apiResponse \<Rightarrow>
                     (if \<not> ar_success apiResponse then
                        (Inl (JsError (opt_or_else (ar_message apiResponse)
                                         (js ''Failed to update order status''))),
                         [PUT_order_status orderId sent])
                      else (Inr (), [PUT_order_status orderId sent])))))"

section \<open>Order submission (components/order-modal.tsx, OrderModal)\<close>

text \<open>
  A cart item. Its \<open>id\<close> is declared a string; the code tests \<open>typeof item.id\<close>, so a
  number is provided for as well.
\<close>

datatype cart_id = IdString js_string | IdNumber js_number

record cart_item =
  ci_id :: cart_id
  ci_cartId :: js_string
  ci_name :: js_string
  ci_price :: amount
  ci_image :: js_string
  ci_quantity :: int
  ci_specialInstructions :: "js_string option"

record popup_data =
  pd_id :: js_string
  pd_totalAmount :: amount

text \<open>The state hooks of the component.\<close>

record order_modal =
  customerName :: js_string
  phoneNumber :: js_string
  customerEmail :: js_string
  generalInstructions :: js_string
  isSubmitting :: bool
  emailError :: "js_string option"
  phoneError :: "js_string option"
  nameError :: "js_string option"
  showPopup :: bool
  popupData :: "popup_data option"

text \<open>
  What a handler does outside the component's own state: a toast (title, description,
  destructive variant), a request, and the two callbacks \<open>clearCart\<close> and \<open>onClose\<close> that the
  parent passes in. A handler returns the new state and its effects in order. The cart is
  the parent's state; \<open>clearCart\<close> is the only means the component has to change it.
  \<open>handleSubmit\<close> is modelled from its call to its end, with the answer of the network
  given by the \<open>network\<close> argument.
\<close>

datatype effect = Toast js_string js_string bool | Request http_request | ClearCart | OnClose

definition initial_modal :: order_modal where
  "initial_modal =
     \<lparr> customerName = [], phoneNumber = [], customerEmail = [], generalInstructions = [],
       isSubmitting = False, emailError = None, phoneError = None, nameError = None,
       showPopup = False, popupData = None \<rparr>"

definition handleEmailChange :: "js_string \<Rightarrow> order_modal \<Rightarrow> order_modal \<times> effect list" where
  "handleEmailChange v s = (s\<lparr>customerEmail := v, emailError := validateEmail v\<rparr>, [])"

definition handlePhoneChange :: "js_string \<Rightarrow> order_modal \<Rightarrow> order_modal \<times> effect list" where
  "handlePhoneChange v s = (s\<lparr>phoneNumber := v, phoneError := validatePhoneNumber v\<rparr>, [])"

definition handleNameChange :: "js_string \<Rightarrow> order_modal \<Rightarrow> order_modal \<times> effect list" where
  "handleNameChange v s =
     (if \<not> truthy (trim v) then
        (s\<lparr>customerName := v, nameError := Some (js ''Customer name is required'')\<rparr>, [])
      else if length (trim v) < 2 then
        (s\<lparr>customerName := v, nameError := Some (js ''Name must be at least 2 characters'')\<rparr>, [])
      else (s\<lparr>customerName := v, nameError := None\<rparr>, []))"

definition handleInstructionsChange :: "js_string \<Rightarrow> order_modal \<Rightarrow> order_modal \<times> effect list" where
  "handleInstructionsChange v s = (s\<lparr>generalInstructions := v\<rparr>, [])"

text \<open>\<open>validateForm\<close> returns \<open>isValid\<close> and the state with the errors it has set.\<close>

definition validateForm :: "order_modal \<Rightarrow> bool \<times> order_modal" where
  "validateForm s =
     (let (isValid1, s1) =
            (if \<not> truthy (trim (customerName s)) then
               (False, s\<lparr>nameError := Some (js ''Customer name is required'')\<rparr>)
             else if length (trim (customerName s)) < 2 then
               (False, s\<lparr>nameError := Some (js ''Name must be at least 2 characters'')\<rparr>)
             else (True, s));
          emailValidationError = validateEmail (customerEmail s);
          s2 = s1\<lparr>emailError := emailValidationError\<rparr>;
          isValid2 = (if truthy_opt emailValidationError then False else isValid1);
          phoneValidationError = validatePhoneNumber (phoneNumber s);
          s3 = s2\<lparr>phoneError := phoneValidationError\<rparr>;
          isValid3 = (if truthy_opt phoneValidationError then False else isValid2)
      in (isValid3, s3))"

definition resetForm :: "order_modal \<Rightarrow> order_modal" where
  "resetForm s =
     s\<lparr>customerName := [], phoneNumber := [], customerEmail := [], generalInstructions := [],
       emailError := None, phoneError := None, nameError := None\<rparr>"

text \<open>\<open>typeof item.id === 'string' ? parseInt(item.id) : item.id\<close>\<close>

definition menuItemId :: "cart_id \<Rightarrow> js_number" where
  "menuItemId i = (case i of IdString str \<Rightarrow> parseInt str | IdNumber n \<Rightarrow> n)"

text \<open>The object literal \<open>orderData\<close> that \<open>handleSubmit\<close> builds from the form and the cart.\<close>

definition orderData :: "order_modal \<Rightarrow> cart_item list \<Rightarrow> order_submission" where
  "orderData s cart =
     \<lparr> os_customerName = trim (customerName s),
       os_customerPhone = or_else (trim (phoneNumber s)) (js ''Not provided''),
       os_customerEmail = Some (or_else (trim (customerEmail s)) (js ''Not provided'')),
       os_items = map (\<lambda>item.
          \<lparr> si_menuItemId = menuItemId (ci_id item),
            si_quantity = ci_quantity item,
            si_specialInstructions = Some (opt_or_else (ci_specialInstructions item) []) \<rparr>) cart,
       os_paymentMethod = None,
       os_specialInstructions = Some (or_else (trim (generalInstructions s)) []),
       os_deliveryAddress = None \<rparr>"

definition errorMessage :: "js_thrown \<Rightarrow> js_string" where
  "errorMessage error =
     (case error of
        JsError message \<Rightarrow>
          (if str_includes message (js ''not available'')
           then js ''Some items in your cart are no longer available. Please refresh your cart and try again.''
           else message)
      | NonError \<Rightarrow> js ''Failed to place order. Please try again.'')"

definition handleSubmit ::
  "network \<Rightarrow> cart_item list \<Rightarrow> order_modal \<Rightarrow> order_modal \<times> effect list" where
  "handleSubmit net cart s =
     (let (isValid, s1) = validateForm s
      in if \<not> isValid then
           (s1, [Toast (js ''Validation Error'')
                   (js ''Please fix the errors below before submitting'') True])
         else if length cart = 0 then
           (s1, [Toast (js ''Empty Cart'')
                   (js ''Please add items to your cart before placing an order'') True])
         else
           (let s2 = s1\<lparr>isSubmitting := True\<rparr>;
                (response, requests) = placeOrder net (orderData s cart)
            in case response of
                 Inr placed \<Rightarrow>
                   (let orderInfo = \<lparr> pd_id = number_toString (o_id placed),
                                       pd_totalAmount = o_totalAmount placed \<rparr>;
                        s3 = s2\<lparr>popupData := Some orderInfo, showPopup := True\<rparr>;
                        s4 = resetForm s3
                    in (s4\<lparr>isSubmitting := False\<rparr>, map Request requests))
               | Inl error \<Rightarrow>
                   (s2\<lparr>isSubmitting := False\<rparr>,
                    map Request requests @ [Toast (js ''Order Failed'') (errorMessage error) True])))"

definition handlePopupClose :: "order_modal \<Rightarrow> order_modal \<times> effect list" where
  "handlePopupClose s = (s\<lparr>showPopup := False, popupData := None\<rparr>, [ClearCart, OnClose])"

definition handleClose :: "order_modal \<Rightarrow> order_modal \<times> effect list" where
  "handleClose s = (resetForm s, [OnClose])"

text \<open>The dialog's \<open>onOpenChange\<close>.\<close>

definition onOpenChange :: "bool \<Rightarrow> order_modal \<Rightarrow> order_modal \<times> effect list" where
  "onOpenChange opened s =
     (if \<not> showPopup s then (if \<not> opened then handleClose s else (s, [])) else (s, []))"




text \<open>
  The events a user can raise on the component, and the handler each one runs. The cart is
  the parent's; it is handed in with every submit.
\<close>

datatype modal_event =
    EmailChange js_string
  | PhoneChange js_string
  | NameChange js_string
  | InstructionsChange js_string
  | Submit network "cart_item list"
  | PopupClose
  | Close
  | OpenChange bool

fun handle :: "modal_event \<Rightarrow> order_modal \<Rightarrow> order_modal \<times> effect list" where
  "handle (EmailChange v) s = handleEmailChange v s"
| "handle (PhoneChange v) s = handlePhoneChange v s"
| "handle (NameChange v) s = handleNameChange v s"
| "handle (InstructionsChange v) s = handleInstructionsChange v s"
| "handle (Submit net cart) s = handleSubmit net cart s"
| "handle PopupClose s = handlePopupClose s"
| "handle Close s = handleClose s"
| "handle (OpenChange opened) s = onOpenChange opened s"

text \<open>
  The state after a sequence of events, each handler running to its end before the next
  event, and the relation between the two optional fields and their error states that the
  handlers maintain.
\<close>

fun run :: "modal_event list \<Rightarrow> order_modal \<Rightarrow> order_modal" where
  "run [] s = s"
| "run (ev # evs) s = run evs (fst (handle ev s))"

definition errors_in_sync :: "order_modal \<Rightarrow> bool" where
  "errors_in_sync s =
     (emailError s = validateEmail (customerEmail s) \<and>
      phoneError s = validatePhoneNumber (phoneNumber s))"

section \<open>Order management (components/order-success-popup.tsx, OrderManagement)\<close>

text \<open>
  Every call of a state setter, every request and every toast of the component is recorded
  in order, so that what happens before and after a request can be stated.
\<close>

datatype om_event =
    SetOrders "order list"
  | SetLoading bool
  | SetError "js_string option"
  | SetCurrentPage int
  | SetTotalPages int
  | SetTotalCount int
  | SetUpdatingOrders "int set"
  | Requested http_request
  | Toasted js_string js_string bool

text \<open>The state hooks of the component, and the record of events.\<close>

record order_management =
  orders :: "order list"
  loading :: bool
  error :: "js_string option"
  searchTerm :: js_string
  statusFilter :: js_string
  paymentFilter :: js_string
  selectedOrder :: "order option"
  showOrderModal :: bool
  currentPage :: int
  totalPages :: int
  totalCount :: int
  updatingOrders :: "int set"
  events :: "om_event list"

definition setOrders :: "order list \<Rightarrow> order_management \<Rightarrow> order_management" where
  "setOrders v s = s\<lparr>orders := v, events := events s @ [SetOrders v]\<rparr>"

definition setLoading :: "bool \<Rightarrow> order_management \<Rightarrow> order_management" where
  "setLoading v s = s\<lparr>loading := v, events := events s @ [SetLoading v]\<rparr>"

definition setError :: "js_string option \<Rightarrow> order_management \<Rightarrow> order_management" where
  "setError v s = s\<lparr>error := v, events := events s @ [SetError v]\<rparr>"

definition setCurrentPage :: "int \<Rightarrow> order_management \<Rightarrow> order_management" where
  "setCurrentPage v s = s\<lparr>currentPage := v, events := events s @ [SetCurrentPage v]\<rparr>"

definition setTotalPages :: "int \<Rightarrow> order_management \<Rightarrow> order_management" where
  "setTotalPages v s = s\<lparr>totalPages := v, events := events s @ [SetTotalPages v]\<rparr>"

definition setTotalCount :: "int \<Rightarrow> order_management \<Rightarrow> order_management" where
  "setTotalCount v s = s\<lparr>totalCount := v, events := events s @ [SetTotalCount v]\<rparr>"

definition setUpdatingOrders :: "int set \<Rightarrow> order_management \<Rightarrow> order_management" where
  "setUpdatingOrders v s = s\<lparr>updatingOrders := v, events := events s @ [SetUpdatingOrders v]\<rparr>"

definition toast :: "js_string \<Rightarrow> js_string \<Rightarrow> bool \<Rightarrow> order_management \<Rightarrow> order_management" where
  "toast title description destructive s =
     s\<lparr>events := events s @ [Toasted title description destructive]\<rparr>"

definition issue :: "http_request list \<Rightarrow> order_management \<Rightarrow> order_management" where
  "issue requests s = s\<lparr>events := events s @ map Requested requests\<rparr>"

definition mapBackendToFrontendStatus :: "js_string \<Rightarrow> js_string" where
  "mapBackendToFrontendStatus backendStatus =
     (if backendStatus = js ''delivered'' then js ''completed'' else backendStatus)"

definition mapFrontendToBackendStatus :: "js_string \<Rightarrow> js_string" where
  "mapFrontendToBackendStatus frontendStatus =
     (if frontendStatus = js ''completed'' then js ''delivered'' else frontendStatus)"

text \<open>The argument \<open>loadOrders\<close> hands to \<open>fetchAllOrders\<close>.\<close>

definition loadOrders_params :: "order_management \<Rightarrow> int \<Rightarrow> fetch_orders_params" where
  "loadOrders_params s page =
     \<lparr> fp_page = Some page,
       fp_limit = Some 10,
       fp_status = (if statusFilter s \<noteq> js ''all'' then Some (statusFilter s) else None),
       fp_paymentStatus = (if paymentFilter s \<noteq> js ''all'' then Some (paymentFilter s) else None),
       fp_phone = (if truthy (trim (searchTerm s)) then Some (trim (searchTerm s)) else None),
       fp_sortBy = Some (js ''order_date''),
       fp_order = Some (js ''desc''),
       fp_includeCancelled = Some True \<rparr>"

text \<open>
  \<open>loadOrders\<close> is asynchronous. \<open>loadOrders_begin\<close> is what a call does before it
  suspends at \<open>await fetchAllOrders\<close>: two setters and the request. \<open>loadOrders_finish\<close>
  is what it does once the answer is there, up to the point where its promise settles.
  In the branch for an empty page beyond the first, the source calls \<open>loadOrders(1)\<close>
  without \<open>await\<close>: that call runs up to its own suspension, the outer call returns through
  its \<open>finally\<close>, and the inner call is left in flight. The second component of the result is
  the page of such a call in flight, if there is one.

  The filters and the search term are read from the state; no function modelled here
  changes them, so a call reads the same values when it begins and when it finishes. The
  effect hooks of the component, which call \<open>loadOrders\<close> again after a render in which the
  current page or a filter has changed, are not part of these functions.
\<close>

definition loadOrders_begin :: "network \<Rightarrow> int \<Rightarrow> order_management \<Rightarrow> order_management" where
  "loadOrders_begin net page s =
     issue (snd (fetchAllOrders net (loadOrders_params s page)))
       (setError None (setLoading True s))"

definition loadOrders_finish ::
  "network \<Rightarrow> int \<Rightarrow> order_management \<Rightarrow> order_management \<times> int option" where
  "loadOrders_finish net page s =
     (case fst (fetchAllOrders net (loadOrders_params s page)) of
        Inr response \<Rightarrow>
          (if length (fo_orders response) = 0 \<and> page > 1 then
             (setLoading False (loadOrders_begin net 1 (setCurrentPage 1 s)), Some 1)
           else
             (setLoading False
               (setCurrentPage (fo_currentPage response)
                 (setTotalPages (fo_totalPages response)
                   (setTotalCount (fo_totalCount response)
                     (setOrders (fo_orders response) s)))), None))
      | Inl err \<Rightarrow>
          (setLoading False
            (toast (js ''Loading Failed'') (js ''Failed to load orders. Please try again.'') True
              (setError (Some (case err of JsError message \<Rightarrow> message
                                 | NonError \<Rightarrow> js ''Failed to load orders'')) s)), None))"

definition loadOrders ::
  "network \<Rightarrow> int \<Rightarrow> order_management \<Rightarrow> order_management \<times> int option" where
  "loadOrders net page s = loadOrders_finish net page (loadOrders_begin net page s)"

text \<open>
  The component once every call in flight has been answered, with no other event in
  between.
\<close>

function settle :: "network \<Rightarrow> order_management \<times> int option \<Rightarrow> order_management" where
  "settle net (s, None) = s"
| "settle net (s, Some page) = settle net (loadOrders_finish net page s)"
  by pat_completeness auto
termination
  by (relation "measure (\<lambda>(net, s, inflight).
        case inflight of None \<Rightarrow> 0 | Some page \<Rightarrow> if page > 1 then 2 else 1)")
     (auto simp: loadOrders_finish_def split: sum.splits if_splits)

text \<open>
  \<open>String.prototype.toUpperCase\<close> on the first code unit, for the ASCII letters; any other
  code unit is left as it is. The statuses the buttons hand in are ASCII.
\<close>

definition toUpperCase :: "js_char \<Rightarrow> js_char" where
  "toUpperCase c = (if 0x0061 \<le> c \<and> c \<le> 0x007A then c - 0x0020 else c)"

text \<open>\<open>newStatus.charAt(0).toUpperCase() + newStatus.slice(1)\<close>\<close>

definition capitalize :: "js_string \<Rightarrow> js_string" where
  "capitalize str = (case str of [] \<Rightarrow> [] | c # cs \<Rightarrow> toUpperCase c # cs)"

definition handleStatusUpdate ::
  "network \<Rightarrow> int \<Rightarrow> js_string \<Rightarrow> order_management \<Rightarrow> order_management \<times> int option" where
  "handleStatusUpdate net orderId newStatus s =
     (let page = currentPage s;
          s1 = setUpdatingOrders (insert orderId (updatingOrders s)) s;
          s2 = setOrders
                 (map (\<lambda>order. if o_id order = orderId
                                then order\<lparr>o_orderStatus := mapFrontendToBackendStatus newStatus\<rparr>
                                else order) (orders s1)) s1;
          backendStatus = mapFrontendToBackendStatus newStatus;
          (result, requests) =
             updateOrderStatus net orderId
               \<lparr> su_status = backendStatus, su_changedBy = Some (js ''admin''), su_notes = None \<rparr>;
          s3 = issue requests s2
      in case result of
           Inr _ \<Rightarrow>
             (let (s4, inflight) = loadOrders net page s3;
                  s5 = toast (js ''Status Updated'')
                         (js ''Order status updated to '' @ capitalize newStatus) False s4
              in (setUpdatingOrders (updatingOrders s5 - {orderId}) s5, inflight))
         | Inl err \<Rightarrow>
             (let (s4, inflight) = loadOrders net page s3;
                  s5 = toast (js ''Update Failed'')
                         (js ''Failed to update order status. Please try again.'') True s4
              in (setUpdatingOrders (updatingOrders s5 - {orderId}) s5, inflight)))"

text \<open>
  The transition controls rendered for one order of the list: five order-status buttons
  and three payment-status buttons, each with the status (and method) its click hands to
  the handler and its \<open>disabled\<close> attribute.
\<close>

record status_button =
  sbt_status :: js_string
  sbt_selected :: bool
  sbt_disabled :: bool

record payment_button =
  pbt_paymentStatus :: js_string
  pbt_paymentMethod :: "js_string option"
  pbt_selected :: bool
  pbt_disabled :: bool

definition statusButtons :: "order_management \<Rightarrow> order \<Rightarrow> status_button list" where
  "statusButtons s order =
     (let displayStatus = mapBackendToFrontendStatus (o_orderStatus order);
          isUpdating = (o_id order \<in> updatingOrders s)
      in map (\<lambda>status.
            \<lparr> sbt_status = status,
              sbt_selected = (displayStatus = status),
              sbt_disabled = (isUpdating \<or> o_orderStatus order = js ''cancelled''
                               \<or> o_orderStatus order = js ''delivered'') \<rparr>)
           [js ''pending'', js ''preparing'', js ''ready'', js ''completed'', js ''cancelled''])"

definition paymentButtons :: "order_management \<Rightarrow> order \<Rightarrow> payment_button list" where
  "paymentButtons s order =
     (let isUpdating = (o_id order \<in> updatingOrders s)
      in [ \<lparr> pbt_paymentStatus = js ''pending'', pbt_paymentMethod = None,
             pbt_selected = (o_paymentStatus order = js ''pending''),
             pbt_disabled = isUpdating \<rparr>,
           \<lparr> pbt_paymentStatus = js ''paid'', pbt_paymentMethod = Some (js ''cash''),
             pbt_selected = (o_paymentStatus order = js ''paid''
                              \<and> o_paymentMethod order = Some (js ''cash'')),
             pbt_disabled = isUpdating \<rparr>,
           \<lparr> pbt_paymentStatus = js ''paid'', pbt_paymentMethod = Some (js ''upi''),
             pbt_selected = (o_paymentStatus order = js ''paid''
                              \<and> o_paymentMethod order = Some (js ''upi'')),
             pbt_disabled = isUpdating \<rparr> ])"

text \<open>The requests among a sequence of events, in order.\<close>

fun requests_of :: "om_event list \<Rightarrow> http_request list" where
  "requests_of [] = []"
| "requests_of (Requested r # evs) = r # requests_of evs"
| "requests_of (ev # evs) = requests_of evs"

text \<open>
  The list that \<open>handleStatusUpdate\<close> writes before it calls the endpoint: the order with
  the given id gets the new status, mapped to the backend's name for it.
\<close>

definition optimistic :: "int \<Rightarrow> js_string \<Rightarrow> order list \<Rightarrow> order list" where
  "optimistic orderId newStatus list =
     map (\<lambda>order. if o_id order = orderId
                    then order\<lparr>o_orderStatus := mapFrontendToBackendStatus newStatus\<rparr>
                    else order) list"

text \<open>
  The body \<open>handleStatusUpdate\<close> sends, and the toast it ends with: the one of the \<open>try\<close>
  block when the endpoint call returned, the one of the \<open>catch\<close> block when it threw.
\<close>

definition status_sent :: "js_string \<Rightarrow> status_body" where
  "status_sent newStatus =
     \<lparr> sb_status = mapFrontendToBackendStatus newStatus, sb_changedBy = js ''admin'',
       sb_notes = None \<rparr>"

definition outcome_toast :: "js_string \<Rightarrow> js_thrown + unit \<Rightarrow> om_event" where
  "outcome_toast newStatus result =
     (case result of
        Inr _ \<Rightarrow> Toasted (js ''Status Updated'')
                   (js ''Order status updated to '' @ capitalize newStatus) False
      | Inl _ \<Rightarrow> Toasted (js ''Update Failed'')
                   (js ''Failed to update order status. Please try again.'') True)"

section \<open>Concrete inputs\<close>

text \<open>A backend that cannot be reached: every request is rejected.\<close>

definition net_down :: network where
  "net_down =
     \<lparr> get_menu_test = Rejected (JsError (js ''Failed to fetch'')),
       post_menu_test = (\<lambda>ids. Rejected (JsError (js ''Failed to fetch''))),
       post_orders = (\<lambda>d. Rejected (JsError (js ''Failed to fetch''))),
       get_orders = (\<lambda>q. Rejected (JsError (js ''Failed to fetch''))),
       put_order_status = (\<lambda>i b. Rejected (JsError (js ''Failed to fetch''))) \<rparr>"

definition backend_order_42 :: backend_order where
  "backend_order_42 =
     \<lparr> bo_id = 42, bo_customer_name = js ''Asha'', bo_customer_phone = js ''Not provided'',
       bo_customer_email = Some (js ''Not provided''), bo_total_amount = 150.5,
       bo_order_status = js ''pending'', bo_payment_status = js ''pending'',
       bo_payment_method = None, bo_special_instructions = Some [],
       bo_delivery_address = None, bo_order_date = js ''2025-01-01'',
       bo_estimated_delivery_time = None, bo_actual_delivery_time = None,
       bo_cancelled_at = None, bo_cancelled_reason = None, bo_cancelled_by = None,
       bo_items = [\<lparr> bi_id = 1, bi_item_name = js ''Tea'', bi_item_price = 75.25,
                     bi_quantity = 2, bi_special_instructions = None, bi_subtotal = 150.5 \<rparr>],
       bo_created_at = js ''2025-01-01'', bo_updated_at = js ''2025-01-01'' \<rparr>"

text \<open>
  A backend that accepts everything: the probe answers, \<open>POST /orders\<close> answers with order
  42, the list holds that order on page 1 and nothing on any other page.
\<close>

definition ok_body :: "unit api_response" where
  "ok_body = \<lparr> ar_success = True, ar_message = None, ar_data = () \<rparr>"

definition page_of :: "backend_order list \<Rightarrow> orders_list_response" where
  "page_of rows =
     \<lparr> ar_success = True, ar_message = None, ar_data = rows,
       lr_totalCount = 1, lr_totalPages = 1, lr_currentPage = 1 \<rparr>"

definition net_ok :: network where
  "net_ok =
     \<lparr> get_menu_test = Response True 200 (Inr ()),
       post_menu_test = (\<lambda>ids. Response True 200 (Inr ok_body)),
       post_orders = (\<lambda>d. Response True 201
          (Inr \<lparr> ar_success = True, ar_message = None, ar_data = backend_order_42 \<rparr>)),
       get_orders = (\<lambda>q. Response True 200
          (Inr (page_of (if map_of q (js ''page'') = Some (js ''1'') then [backend_order_42] else [])))),
       put_order_status = (\<lambda>i b. Response True 200 (Inr ok_body)) \<rparr>"

text \<open>
  A backend whose probe answers and whose \<open>POST /orders\<close> answers 400 with a message.
\<close>

definition net_refusing :: network where
  "net_refusing =
     net_ok\<lparr> post_orders := (\<lambda>d. Response False 400
        (Inr \<lparr> ar_success = False, ar_message = Some (js ''Quantity must be positive''),
               ar_data = backend_order_42 \<rparr>)) \<rparr>"

text \<open>A filled-in form and a cart with one line whose identifier is a numeric string.\<close>

definition form_asha :: order_modal where
  "form_asha = initial_modal\<lparr> customerName := js '' Asha '' \<rparr>"

definition cart_tea :: "cart_item list" where
  "cart_tea =
     [\<lparr> ci_id = IdString (js ''7''), ci_cartId = js ''c1'', ci_name = js ''Tea'',
        ci_price = 75.25, ci_image = [], ci_quantity = 2, ci_specialInstructions = None \<rparr>]"

text \<open>A backend whose \<open>POST /orders\<close> is rejected with a value that is not an \<open>Error\<close>.\<close>

definition net_aborting :: network where
  "net_aborting = net_ok\<lparr> post_orders := (\<lambda>d. Rejected NonError) \<rparr>"

text \<open>A cart whose line carries instructions with surrounding blanks.\<close>

definition cart_coffee :: "cart_item list" where
  "cart_coffee =
     [\<lparr> ci_id = IdString (js ''12''), ci_cartId = js ''c2'', ci_name = js ''Coffee'',
        ci_price = 90, ci_image = [], ci_quantity = 1,
        ci_specialInstructions = Some (js '' less sugar '') \<rparr>]"

text \<open>
  The order list as first rendered, and with order 42 listed; order 42 once delivered.
\<close>

definition om_initial :: order_management where
  "om_initial =
     \<lparr> orders = [], loading = True, error = None, searchTerm = [], statusFilter = js ''all'',
       paymentFilter = js ''all'', selectedOrder = None, showOrderModal = False,
       currentPage = 1, totalPages = 1, totalCount = 0, updatingOrders = {}, events = [] \<rparr>"

definition om_listed :: order_management where
  "om_listed = om_initial\<lparr> orders := [transformOrder backend_order_42], loading := False,
                            totalCount := 1 \<rparr>"

definition delivered_42 :: order where
  "delivered_42 = (transformOrder backend_order_42)\<lparr> o_orderStatus := js ''delivered'' \<rparr>"

text \<open>
  A backend that refuses the status change with 400 and a message, and answers the list
  request with 500.
\<close>

definition net_unwilling :: network where
  "net_unwilling =
     net_ok\<lparr> put_order_status := (\<lambda>i b. Response False 400
                (Inr \<lparr> ar_success = False, ar_message = Some (js ''Invalid status transition''),
                       ar_data = () \<rparr>)),
             get_orders := (\<lambda>q. Response False 500 (Inr (page_of []))) \<rparr>"

text \<open>A backend whose order list is empty on every page.\<close>

definition net_empty :: network where
  "net_empty = net_ok\<lparr> get_orders := (\<lambda>q. Response True 200 (Inr (page_of []))) \<rparr>"

text \<open>The order list open on page 3.\<close>

definition om_third :: order_management where
  "om_third = om_listed\<lparr> currentPage := 3 \<rparr>"

section \<open>Properties\<close>

lemma trim_Nil_iff: "(trim s = []) = list_all is_white_space s"
proof
  assume "trim s = []"
  then have a: "\<forall>x \<in> set (dropWhile is_white_space s). is_white_space x"
    by (simp add: trim_def dropWhile_eq_Nil_conv)
  show "list_all is_white_space s"
  proof (cases "dropWhile is_white_space s")
    case Nil
    then show ?thesis by (simp add: dropWhile_eq_Nil_conv list_all_iff)
  next
    case (Cons y ys)
    then have "\<not> is_white_space y" "y \<in> set (dropWhile is_white_space s)"
      using hd_dropWhile [of is_white_space s] by auto
    with a show ?thesis by blast
  qed
next
  assume "list_all is_white_space s"
  then have "dropWhile is_white_space s = []"
    by (simp add: dropWhile_eq_Nil_conv list_all_iff)
  then show "trim s = []"
    unfolding trim_def by (simp only: rev.simps dropWhile.simps)
qed

text \<open>
  C8. The phone validator returns no error exactly when the input is empty or consists of
  white space only, or its digit-only projection has between 10 and 15 code units; a
  rejected input gets the too-short message below 10 digits and the too-long message
  above 15.
\<close>

theorem validatePhoneNumber_spec:
  "((validatePhoneNumber s = None) =
      (list_all is_white_space s \<or>
       (10 \<le> length (filter is_digit s) \<and> length (filter is_digit s) \<le> 15))) \<and>
   (validatePhoneNumber s \<noteq> None \<longrightarrow>
      validatePhoneNumber s =
        (if length (filter is_digit s) < 10
         then Some (js ''Phone number must be at least 10 digits'')
         else Some (js ''Phone number cannot exceed 15 digits'')) \<and>
      (length (filter is_digit s) < 10 \<or> length (filter is_digit s) > 15))"
  by (auto simp: validatePhoneNumber_def truthy_def trim_Nil_iff Let_def)

theorem validatePhoneNumber_spec_witness:
  "validatePhoneNumber (js ''123-456-7890'') = None \<and>
   validatePhoneNumber [] = None \<and>
   validatePhoneNumber (js ''  '') = None \<and>
   validatePhoneNumber (js ''12345'') = Some (js ''Phone number must be at least 10 digits'') \<and>
   validatePhoneNumber (js ''1234567890123456'') = Some (js ''Phone number cannot exceed 15 digits'')"
  using validatePhoneNumber_spec [of "js ''123-456-7890''"]
    validatePhoneNumber_spec [of "[]"]
    validatePhoneNumber_spec [of "js ''  ''"]
    validatePhoneNumber_spec [of "js ''12345''"]
    validatePhoneNumber_spec [of "js ''1234567890123456''"]
  by (simp add: js_def is_digit_def is_white_space_def)

subsection \<open>Digits, \<open>toString\<close> and \<open>parseInt\<close>\<close>

lemma is_digit_unat: "is_digit c = (48 \<le> unat c \<and> unat c \<le> 57)"
  by (simp add: is_digit_def word_le_nat_alt)

lemma is_white_space_unat:
  "is_white_space c =
     (unat c \<in> {9, 10, 11, 12, 13, 32, 160, 5760, 8232, 8233, 8239, 8287, 12288, 65279}
      \<or> (8192 \<le> unat c \<and> unat c \<le> 8202))"
  by (auto simp: is_white_space_def word_le_nat_alt word_unat_eq_iff)

lemma digit_not_white_space: "is_digit c \<Longrightarrow> \<not> is_white_space c"
  by (auto simp: is_digit_unat is_white_space_unat)

lemma radix_digit_10: "radix_digit 10 c = (if is_digit c then Some (unat c - 48) else None)"
  by (simp add: radix_digit_def is_digit_def)

lemma unat_digit_char: "d < 10 \<Longrightarrow> unat (digit_char d) = 48 + d"
  unfolding digit_char_def by (subst unat_of_nat) simp

lemma is_digit_digit_char: "d < 10 \<Longrightarrow> is_digit (digit_char d)"
  by (simp add: is_digit_unat unat_digit_char)

lemma dec_digits_all: "list_all is_digit (dec_digits n)"
  by (induction n rule: dec_digits.induct) (subst dec_digits.simps, simp add: is_digit_digit_char)

lemma dec_digits_nonempty: "dec_digits n \<noteq> []"
  by (subst dec_digits.simps) simp

lemma radix_value_snoc:
  "radix_value r (z @ [c]) = radix_value r z * r + (case radix_digit r c of None \<Rightarrow> 0 | Some d \<Rightarrow> d)"
  by (simp add: radix_value_def)

lemma radix_value_dec_digits: "radix_value 10 (dec_digits n) = n"
proof (induction n rule: dec_digits.induct)
  case (1 n)
  show ?case
  proof (cases "n < 10")
    case True
    then show ?thesis
      by (subst dec_digits.simps)
         (simp add: radix_value_def radix_digit_10 is_digit_digit_char unat_digit_char)
  next
    case False
    then have "radix_value 10 (dec_digits (n div 10)) = n div 10" using 1 by simp
    with False show ?thesis
      by (subst dec_digits.simps)
         (simp add: radix_value_snoc radix_digit_10 is_digit_digit_char unat_digit_char)
  qed
qed

text \<open>\<open>parseInt\<close> on a non-empty string of ASCII digits, with or without a minus sign.\<close>

lemma starts_with_hex_digits:
  assumes "list_all is_digit ds"
  shows "\<not> starts_with ds (js ''0x'')" "\<not> starts_with ds (js ''0X'')"
        "\<not> starts_with ds (js ''+'')" "\<not> starts_with ds (js ''-'')"
  using assms
  by (cases ds; cases "tl ds"; auto simp: js_def is_digit_unat word_unat_eq_iff)+

lemma radix_digit_10_defined: "(\<exists>d. radix_digit 10 c = Some d) = is_digit c"
  by (simp add: radix_digit_10)

lemma takeWhile_digits: "list_all is_digit ds \<Longrightarrow> takeWhile is_digit ds = ds"
  by (induction ds) simp_all

lemma dropWhile_digits: "ds \<noteq> [] \<Longrightarrow> list_all is_digit ds \<Longrightarrow> dropWhile is_white_space ds = ds"
  by (cases ds) (simp_all add: digit_not_white_space)

lemma round_to_double_exact: "v \<le> 2 ^ 53 \<Longrightarrow> round_to_double v = Some v"
  by (simp add: round_to_double_def)

lemma to_number_exact:
  "v \<le> 2 ^ 53 \<Longrightarrow> to_number neg v = Num (if neg then - int v else int v)"
  by (simp add: to_number_def round_to_double_exact)

lemma parseInt_digits:
  assumes "ds \<noteq> []" "list_all is_digit ds"
  shows "parseInt ds = to_number False (radix_value 10 ds)"
  using assms
  by (simp add: parseInt_def Let_def dropWhile_digits starts_with_hex_digits
      radix_digit_10_defined takeWhile_digits)

lemma parseInt_minus_digits:
  assumes "ds \<noteq> []" "list_all is_digit ds"
  shows "parseInt (js ''-'' @ ds) = to_number True (radix_value 10 ds)"
proof -
  have "\<not> is_white_space 0x2D" by (simp add: is_white_space_def)
  then have d: "dropWhile is_white_space (js ''-'' @ ds) = 0x2D # ds" by (simp add: js_def)
  have s: "starts_with (0x2D # ds) (js ''-'')" by (simp add: js_def)
  show ?thesis using assms
    by (simp add: parseInt_def Let_def d s starts_with_hex_digits radix_digit_10_defined
        takeWhile_digits)
qed

lemma parseInt_number_toString:
  assumes "\<bar>n\<bar> \<le> 2 ^ 53"
  shows "parseInt (number_toString n) = Num n"
proof (cases "n < 0")
  case True
  then have "nat (- n) \<le> 2 ^ 53" using assms by simp
  then have "to_number True (nat (- n)) = Num n"
    using True by (simp add: to_number_exact)
  then show ?thesis using True
    by (simp add: number_toString_def parseInt_minus_digits dec_digits_all dec_digits_nonempty
        radix_value_dec_digits)
next
  case False
  then have "nat n \<le> 2 ^ 53" using assms by simp
  then have "to_number False (nat n) = Num n"
    using False by (simp add: to_number_exact)
  then show ?thesis using False
    by (simp add: number_toString_def parseInt_digits dec_digits_all dec_digits_nonempty
        radix_value_dec_digits)
qed

subsection \<open>Order API client\<close>

text \<open>
  C9. Transforming a backend order record to the client view model reproduces the total
  amount, the order status and every item's subtotal of the record; the total amount of the
  result does not depend on the items of the record.
\<close>

theorem transformOrder_mirrors:
  "o_totalAmount (transformOrder b) = bo_total_amount b \<and>
   o_orderStatus (transformOrder b) = bo_order_status b \<and>
   map oi_subtotal (o_items (transformOrder b)) = map bi_subtotal (bo_items b) \<and>
   o_totalAmount (transformOrder (b\<lparr>bo_items := others\<rparr>)) = bo_total_amount b"
  by (simp add: transformOrder_def transformOrderItem_def comp_def)

lemma checkItemsAvailability_requests:
  "snd (checkItemsAvailability net ids) = [GET_menu_test] \<or>
   snd (checkItemsAvailability net ids) = [GET_menu_test, POST_menu_test ids]"
  by (simp add: checkItemsAvailability_def split: http_result.splits sum.splits)

lemma placeOrder_unavailable:
  assumes "fst (checkItemsAvailability net (map si_menuItemId (os_items od))) = Inl e"
  shows "placeOrder net od =
           (Inl (JsError (js ''Some menu items are not available. Please refresh your cart and try again.'')),
            snd (checkItemsAvailability net (map si_menuItemId (os_items od))))"
  using assms by (simp add: placeOrder_def Let_def split_beta)

lemma placeOrder_refused:
  assumes "fst (checkItemsAvailability net (map si_menuItemId (os_items od))) = Inr b"
    "post_orders net od = Response False status (Inr errorData)"
  shows "fst (placeOrder net od) =
           Inl (JsError (case ar_message errorData of
                           None \<Rightarrow> js ''HTTP error! status: '' @ number_toString status
                         | Some m \<Rightarrow> if m = [] then js ''HTTP error! status: '' @ number_toString status
                                     else m))"
  using assms
  by (simp add: placeOrder_def Let_def split_beta opt_or_else_def or_else_def truthy_def
      split: option.splits)

lemma unavailable_includes:
  "str_includes (js ''Some menu items are not available. Please refresh your cart and try again.'')
     (js ''not available'')"
  by (simp add: js_def)

text \<open>
  C10. \<open>placeOrder\<close> begins with the availability probe on the test endpoint. Whenever the
  probe throws, whatever it throws, \<open>placeOrder\<close> throws the error "Some menu items are not
  available. Please refresh your cart and try again.", and the only requests issued are
  those of the probe: no \<open>POST /orders\<close> is sent.
\<close>

theorem placeOrder_precheck:
  "take 1 (snd (placeOrder net od)) = [GET_menu_test] \<and>
   ((\<exists>e. fst (checkItemsAvailability net (map si_menuItemId (os_items od))) = Inl e) \<longrightarrow>
      fst (placeOrder net od) =
        Inl (JsError (js ''Some menu items are not available. Please refresh your cart and try again.'')) \<and>
      snd (placeOrder net od) = snd (checkItemsAvailability net (map si_menuItemId (os_items od))) \<and>
      (\<forall>d. POST_orders d \<notin> set (snd (placeOrder net od))))"
proof -
  let ?ids = "map si_menuItemId (os_items od)"
  obtain r t where c: "checkItemsAvailability net ?ids = (r, t)"
    by (cases "checkItemsAvailability net ?ids")
  have t: "t = [GET_menu_test] \<or> t = [GET_menu_test, POST_menu_test ?ids]"
    using checkItemsAvailability_requests [of net ?ids] c by simp
  have first: "take 1 (snd (placeOrder net od)) = [GET_menu_test]"
    using t c by (auto simp: placeOrder_def Let_def split: sum.splits http_result.splits)
  have fail: "fst (placeOrder net od) =
        Inl (JsError (js ''Some menu items are not available. Please refresh your cart and try again.'')) \<and>
      snd (placeOrder net od) = t \<and> (\<forall>d. POST_orders d \<notin> set (snd (placeOrder net od)))"
    if "r = Inl e" for e
    using that t c by (auto simp: placeOrder_def Let_def)
  show ?thesis using first fail c by auto
qed

theorem placeOrder_precheck_witness:
  "fst (checkItemsAvailability net_down (map si_menuItemId (os_items (orderData form_asha cart_tea))))
     = Inl (JsError (js ''Failed to fetch'')) \<and>
   fst (placeOrder net_down (orderData form_asha cart_tea)) =
     Inl (JsError (js ''Some menu items are not available. Please refresh your cart and try again.'')) \<and>
   snd (placeOrder net_down (orderData form_asha cart_tea)) = [GET_menu_test]"
proof -
  have h: "fst (checkItemsAvailability net_down (map si_menuItemId (os_items (orderData form_asha cart_tea))))
     = Inl (JsError (js ''Failed to fetch''))"
    by (simp add: checkItemsAvailability_def net_down_def)
  have t: "snd (checkItemsAvailability net_down (map si_menuItemId (os_items (orderData form_asha cart_tea))))
     = [GET_menu_test]"
    by (simp add: checkItemsAvailability_def net_down_def)
  show ?thesis
    using placeOrder_precheck [of net_down "orderData form_asha cart_tea"] h t by simp
qed

subsection \<open>Order submission\<close>

lemma validateEmail_truthy: "truthy_opt (validateEmail e) = (validateEmail e \<noteq> None)"
  by (simp add: validateEmail_def truthy_opt_def truthy_def js_def)

lemma validatePhoneNumber_truthy: "truthy_opt (validatePhoneNumber p) = (validatePhoneNumber p \<noteq> None)"
  by (simp add: validatePhoneNumber_def truthy_opt_def truthy_def js_def Let_def)

lemma validateForm_fst:
  "fst (validateForm s) =
     (2 \<le> length (trim (customerName s)) \<and> validateEmail (customerEmail s) = None \<and>
      validatePhoneNumber (phoneNumber s) = None)"
  by (auto simp: validateForm_def Let_def validateEmail_truthy validatePhoneNumber_truthy truthy_def)

lemma validateForm_snd:
  "snd (validateForm s) =
     s\<lparr>nameError := (if \<not> truthy (trim (customerName s)) then Some (js ''Customer name is required'')
                      else if length (trim (customerName s)) < 2
                        then Some (js ''Name must be at least 2 characters'')
                      else nameError s),
       emailError := validateEmail (customerEmail s),
       phoneError := validatePhoneNumber (phoneNumber s)\<rparr>"
  by (simp add: validateForm_def Let_def)

lemma handleSubmit_rejected:
  assumes "fst (validateForm s)" "cart \<noteq> []" "fst (placeOrder net (orderData s cart)) = Inl err"
  shows "handleSubmit net cart s =
           ((snd (validateForm s))\<lparr>isSubmitting := False\<rparr>,
            map Request (snd (placeOrder net (orderData s cart))) @
              [Toast (js ''Order Failed'') (errorMessage err) True])"
  using assms by (simp add: handleSubmit_def split_beta Let_def)

lemma handleSubmit_placed:
  assumes "fst (validateForm s)" "cart \<noteq> []" "fst (placeOrder net (orderData s cart)) = Inr placed"
  shows "handleSubmit net cart s =
           ((resetForm ((snd (validateForm s))
               \<lparr>isSubmitting := True,
                 popupData := Some \<lparr> pd_id = number_toString (o_id placed),
                                      pd_totalAmount = o_totalAmount placed \<rparr>,
                 showPopup := True\<rparr>))\<lparr>isSubmitting := False\<rparr>,
            map Request (snd (placeOrder net (orderData s cart))))"
  using assms by (simp add: handleSubmit_def split_beta Let_def)

lemma validateEmail_Nil: "validateEmail [] = None"
  by (simp add: validateEmail_def trim_def truthy_def)

lemma validatePhoneNumber_Nil: "validatePhoneNumber [] = None"
  by (simp add: validatePhoneNumber_def trim_def truthy_def)

lemma handle_in_sync: "errors_in_sync s \<Longrightarrow> errors_in_sync (fst (handle ev s))"
proof (cases ev)
  case (Submit net cart)
  show ?thesis
  proof (cases "fst (validateForm s) \<and> cart \<noteq> []")
    case False
    then show ?thesis using Submit
      by (auto simp: handleSubmit_def split_beta errors_in_sync_def validateForm_snd)
  next
    case True
    then show ?thesis using Submit
      by (cases "fst (placeOrder net (orderData s cart))")
         (simp_all add: handleSubmit_rejected handleSubmit_placed errors_in_sync_def
            validateForm_snd resetForm_def validateEmail_Nil validatePhoneNumber_Nil)
  qed
qed (auto simp: errors_in_sync_def handleEmailChange_def handlePhoneChange_def
       handleNameChange_def handleInstructionsChange_def handlePopupClose_def handleClose_def
       onOpenChange_def resetForm_def validateEmail_Nil validatePhoneNumber_Nil)

lemma run_in_sync: "errors_in_sync s \<Longrightarrow> errors_in_sync (run evs s)"
  by (induction evs arbitrary: s) (simp_all add: handle_in_sync)

lemma reachable_in_sync: "errors_in_sync (run evs initial_modal)"
  by (rule run_in_sync) (simp add: errors_in_sync_def initial_modal_def validateEmail_Nil validatePhoneNumber_Nil)

lemma form_asha_reached: "form_asha = run [NameChange (js '' Asha '')] initial_modal"
  by (simp add: form_asha_def handleNameChange_def initial_modal_def trim_def js_def is_white_space_def truthy_def)

lemma form_asha_valid: "fst (validateForm form_asha)"
  by (simp add: validateForm_fst form_asha_def initial_modal_def trim_def js_def is_white_space_def
      validateEmail_Nil validatePhoneNumber_Nil)

lemma cart_tea_nonempty: "cart_tea \<noteq> []"
  by (simp add: cart_tea_def)

lemma check_net_ok: "checkItemsAvailability net_ok ids = (Inr True, [GET_menu_test, POST_menu_test ids])"
  by (simp add: checkItemsAvailability_def net_ok_def)

lemma check_net_refusing: "checkItemsAvailability net_refusing ids = (Inr True, [GET_menu_test, POST_menu_test ids])"
  by (simp add: checkItemsAvailability_def net_refusing_def net_ok_def)

lemma place_net_ok:
  "placeOrder net_ok d =
     (Inr (transformOrder backend_order_42),
      [GET_menu_test, POST_menu_test (map si_menuItemId (os_items d)), POST_orders d])"
  by (simp add: placeOrder_def check_net_ok) (simp add: net_ok_def)

lemma place_net_refusing:
  "placeOrder net_refusing d =
     (Inl (JsError (js ''Quantity must be positive'')),
      [GET_menu_test, POST_menu_test (map si_menuItemId (os_items d)), POST_orders d])"
  by (simp add: placeOrder_def check_net_refusing)
     (simp add: net_refusing_def net_ok_def opt_or_else_def or_else_def truthy_def js_def)

text \<open>
  C6. \<open>handleSubmit\<close> checks its preconditions in order. The validators pass exactly
  when the trimmed name has at least two code units and the email and phone validators
  return no error. If they do not pass, the handler returns with the field errors set and
  the validation toast as its only effect, whatever the cart. If they pass and the cart is
  empty, it returns with the empty-cart toast as its only effect. Only when they pass and
  the cart is not empty does it issue requests: those of \<open>placeOrder\<close> on the submission
  built from the form and the cart, and no others.
\<close>

theorem handleSubmit_preconditions:
  "(fst (validateForm s) =
      (2 \<le> length (trim (customerName s)) \<and> validateEmail (customerEmail s) = None \<and>
       validatePhoneNumber (phoneNumber s) = None)) \<and>
   (\<not> fst (validateForm s) \<longrightarrow>
      handleSubmit net cart s =
        (snd (validateForm s),
         [Toast (js ''Validation Error'') (js ''Please fix the errors below before submitting'') True]) \<and>
      (nameError (snd (validateForm s)) \<noteq> None \<or> emailError (snd (validateForm s)) \<noteq> None \<or>
       phoneError (snd (validateForm s)) \<noteq> None)) \<and>
   (fst (validateForm s) \<and> cart = [] \<longrightarrow>
      handleSubmit net cart s =
        (snd (validateForm s),
         [Toast (js ''Empty Cart'') (js ''Please add items to your cart before placing an order'') True])) \<and>
   (fst (validateForm s) \<and> cart \<noteq> [] \<longrightarrow>
      (\<exists>rest. snd (handleSubmit net cart s) =
         map Request (snd (placeOrder net (orderData s cart))) @ rest \<and>
         (\<forall>r. Request r \<notin> set rest)) \<and>
      snd (placeOrder net (orderData s cart)) \<noteq> [])"
proof -
  have invalid: "handleSubmit net cart s =
        (snd (validateForm s),
         [Toast (js ''Validation Error'') (js ''Please fix the errors below before submitting'') True])"
    if "\<not> fst (validateForm s)"
    using that by (simp add: handleSubmit_def split_beta)
  have populated: "nameError (snd (validateForm s)) \<noteq> None \<or> emailError (snd (validateForm s)) \<noteq> None \<or>
       phoneError (snd (validateForm s)) \<noteq> None"
    if "\<not> fst (validateForm s)"
    using that by (auto simp: validateForm_fst validateForm_snd truthy_def)
  have empty: "handleSubmit net cart s =
        (snd (validateForm s),
         [Toast (js ''Empty Cart'') (js ''Please add items to your cart before placing an order'') True])"
    if "fst (validateForm s)" "cart = []"
    using that by (simp add: handleSubmit_def split_beta)
  have sends: "\<exists>rest. snd (handleSubmit net cart s) =
         map Request (snd (placeOrder net (orderData s cart))) @ rest \<and> (\<forall>r. Request r \<notin> set rest)"
    if "fst (validateForm s)" "cart \<noteq> []"
    using that by (auto simp: handleSubmit_def split_beta Let_def split: sum.splits)
  have nonempty: "snd (placeOrder net (orderData s cart)) \<noteq> []"
    by (auto simp: placeOrder_def checkItemsAvailability_def Let_def split_beta
        split: sum.splits http_result.splits)
  show ?thesis
    using invalid populated empty sends nonempty validateForm_fst by blast
qed


theorem handleSubmit_preconditions_witness:
  "handleSubmit net_ok cart_tea initial_modal =
     (initial_modal\<lparr>nameError := Some (js ''Customer name is required'')\<rparr>,
      [Toast (js ''Validation Error'') (js ''Please fix the errors below before submitting'') True]) \<and>
   handleSubmit net_ok [] form_asha =
     (form_asha,
      [Toast (js ''Empty Cart'') (js ''Please add items to your cart before placing an order'') True]) \<and>
   take 1 (snd (handleSubmit net_ok cart_tea form_asha)) = [Request GET_menu_test]"
proof -
  have i: "\<not> fst (validateForm initial_modal)"
    by (simp add: validateForm_fst initial_modal_def trim_def)
  have si: "snd (validateForm initial_modal) =
              initial_modal\<lparr>nameError := Some (js ''Customer name is required'')\<rparr>"
    by (simp add: validateForm_snd initial_modal_def trim_def truthy_def validateEmail_Nil
        validatePhoneNumber_Nil)
  have sa: "snd (validateForm form_asha) = form_asha"
    by (simp add: validateForm_snd form_asha_def initial_modal_def trim_def truthy_def js_def
        is_white_space_def validateEmail_Nil validatePhoneNumber_Nil)
  have p: "snd (placeOrder net_ok (orderData form_asha cart_tea)) =
             GET_menu_test # tl (snd (placeOrder net_ok (orderData form_asha cart_tea)))"
    by (simp add: place_net_ok)
  have "\<exists>rest. snd (handleSubmit net_ok cart_tea form_asha) =
          map Request (snd (placeOrder net_ok (orderData form_asha cart_tea))) @ rest"
    using handleSubmit_preconditions [where s = form_asha and cart = cart_tea and net = net_ok] form_asha_valid cart_tea_nonempty
    by blast
  then obtain rest where "snd (handleSubmit net_ok cart_tea form_asha) =
          map Request (snd (placeOrder net_ok (orderData form_asha cart_tea))) @ rest"
    by blast
  then have "take 1 (snd (handleSubmit net_ok cart_tea form_asha)) = [Request GET_menu_test]"
    by (subst (asm) p) simp
  then show ?thesis
    using handleSubmit_preconditions [where s = initial_modal and cart = cart_tea and net = net_ok]
      handleSubmit_preconditions [where s = form_asha and cart = "[]" and net = net_ok] i si sa form_asha_valid
    by simp
qed

text \<open>
  C5. When the validators pass, the cart is not empty and \<open>placeOrder\<close> throws, the handler
  leaves the four form fields, the three validation errors and the popup state as they
  were (for every state the component can be in after any sequence of events), and its
  effects are the requests of \<open>placeOrder\<close> followed by one "Order Failed" toast. The toast
  shows the message of the thrown error verbatim, except that a message containing "not
  available" is replaced by the message telling the user to refresh the cart; a thrown
  value that is not an error gets the generic failure message. In particular, when the
  availability probe throws, the toast is the refresh-cart message; and when \<open>POST /orders\<close>
  is answered with a status that is not ok, the thrown message is the message of the
  answer, or "HTTP error! status: " with the status when the answer has none. Whenever the
  handler gets past its preconditions, the submitting flag is false when it ends, whether
  \<open>placeOrder\<close> returned or threw.
\<close>

theorem handleSubmit_failure:
  "(fst (validateForm s) \<and> cart \<noteq> [] \<longrightarrow> \<not> isSubmitting (fst (handleSubmit net cart s))) \<and>
   (s = run history initial_modal \<and> fst (validateForm s) \<and> cart \<noteq> [] \<and>
    fst (placeOrder net (orderData s cart)) = Inl err \<longrightarrow>
      customerName (fst (handleSubmit net cart s)) = customerName s \<and>
      phoneNumber (fst (handleSubmit net cart s)) = phoneNumber s \<and>
      customerEmail (fst (handleSubmit net cart s)) = customerEmail s \<and>
      generalInstructions (fst (handleSubmit net cart s)) = generalInstructions s \<and>
      nameError (fst (handleSubmit net cart s)) = nameError s \<and>
      emailError (fst (handleSubmit net cart s)) = emailError s \<and>
      phoneError (fst (handleSubmit net cart s)) = phoneError s \<and>
      showPopup (fst (handleSubmit net cart s)) = showPopup s \<and>
      popupData (fst (handleSubmit net cart s)) = popupData s \<and>
      snd (handleSubmit net cart s) =
        map Request (snd (placeOrder net (orderData s cart))) @
        [Toast (js ''Order Failed'')
           (case err of
              JsError message \<Rightarrow>
                if str_includes message (js ''not available'')
                then js ''Some items in your cart are no longer available. Please refresh your cart and try again.''
                else message
            | NonError \<Rightarrow> js ''Failed to place order. Please try again.'') True]) \<and>
   (fst (validateForm s) \<and> cart \<noteq> [] \<and>
    (\<exists>e. fst (checkItemsAvailability net (map si_menuItemId (os_items (orderData s cart)))) = Inl e) \<longrightarrow>
      snd (handleSubmit net cart s) =
        map Request (snd (checkItemsAvailability net (map si_menuItemId (os_items (orderData s cart))))) @
        [Toast (js ''Order Failed'')
           (js ''Some items in your cart are no longer available. Please refresh your cart and try again.'')
           True]) \<and>
   ((\<exists>b. fst (checkItemsAvailability net (map si_menuItemId (os_items od))) = Inr b) \<and>
    post_orders net od = Response False status (Inr errorData) \<longrightarrow>
      fst (placeOrder net od) =
        Inl (JsError (case ar_message errorData of
                        None \<Rightarrow> js ''HTTP error! status: '' @ number_toString status
                      | Some m \<Rightarrow> if m = [] then js ''HTTP error! status: '' @ number_toString status
                                  else m)))"
proof -
  have flag: "\<not> isSubmitting (fst (handleSubmit net cart s))" if "fst (validateForm s)" "cart \<noteq> []"
    using that
    by (cases "fst (placeOrder net (orderData s cart))")
       (simp_all add: handleSubmit_rejected handleSubmit_placed)
  have kept: "customerName (fst (handleSubmit net cart s)) = customerName s \<and>
      phoneNumber (fst (handleSubmit net cart s)) = phoneNumber s \<and>
      customerEmail (fst (handleSubmit net cart s)) = customerEmail s \<and>
      generalInstructions (fst (handleSubmit net cart s)) = generalInstructions s \<and>
      nameError (fst (handleSubmit net cart s)) = nameError s \<and>
      emailError (fst (handleSubmit net cart s)) = emailError s \<and>
      phoneError (fst (handleSubmit net cart s)) = phoneError s \<and>
      showPopup (fst (handleSubmit net cart s)) = showPopup s \<and>
      popupData (fst (handleSubmit net cart s)) = popupData s"
    if "s = run history initial_modal" "fst (validateForm s)" "cart \<noteq> []"
       "fst (placeOrder net (orderData s cart)) = Inl err"
  proof -
    have "errors_in_sync s" using that(1) reachable_in_sync by simp
    moreover have "2 \<le> length (trim (customerName s))" using that(2) by (simp add: validateForm_fst)
    ultimately show ?thesis
      using that by (auto simp: handleSubmit_rejected validateForm_snd errors_in_sync_def truthy_def)
  qed
  have shown: "snd (handleSubmit net cart s) =
        map Request (snd (placeOrder net (orderData s cart))) @
        [Toast (js ''Order Failed'')
           (case err of
              JsError message \<Rightarrow>
                if str_includes message (js ''not available'')
                then js ''Some items in your cart are no longer available. Please refresh your cart and try again.''
                else message
            | NonError \<Rightarrow> js ''Failed to place order. Please try again.'') True]"
    if "fst (validateForm s)" "cart \<noteq> []" "fst (placeOrder net (orderData s cart)) = Inl err"
    using that by (simp add: handleSubmit_rejected errorMessage_def)
  have probe: "snd (handleSubmit net cart s) =
        map Request (snd (checkItemsAvailability net (map si_menuItemId (os_items (orderData s cart))))) @
        [Toast (js ''Order Failed'')
           (js ''Some items in your cart are no longer available. Please refresh your cart and try again.'')
           True]"
    if "fst (validateForm s)" "cart \<noteq> []"
       "fst (checkItemsAvailability net (map si_menuItemId (os_items (orderData s cart)))) = Inl e" for e
  proof -
    have "placeOrder net (orderData s cart) =
           (Inl (JsError (js ''Some menu items are not available. Please refresh your cart and try again.'')),
            snd (checkItemsAvailability net (map si_menuItemId (os_items (orderData s cart)))))"
      using that(3) by (rule placeOrder_unavailable)
    then show ?thesis
      using that(1,2) unavailable_includes
      by (simp add: handleSubmit_rejected errorMessage_def)
  qed
  have refused: "fst (placeOrder net od) =
        Inl (JsError (case ar_message errorData of
                        None \<Rightarrow> js ''HTTP error! status: '' @ number_toString status
                      | Some m \<Rightarrow> if m = [] then js ''HTTP error! status: '' @ number_toString status
                                  else m))"
    if "fst (checkItemsAvailability net (map si_menuItemId (os_items od))) = Inr b"
       "post_orders net od = Response False status (Inr errorData)" for b
    using that by (rule placeOrder_refused)
  show ?thesis using flag kept shown probe refused by blast
qed

theorem handleSubmit_failure_witness:
  "fst (placeOrder net_refusing (orderData form_asha cart_tea)) = Inl (JsError (js ''Quantity must be positive'')) \<and>
   customerName (fst (handleSubmit net_refusing cart_tea form_asha)) = js '' Asha '' \<and>
   \<not> isSubmitting (fst (handleSubmit net_refusing cart_tea form_asha)) \<and>
   last (snd (handleSubmit net_refusing cart_tea form_asha)) =
     Toast (js ''Order Failed'') (js ''Quantity must be positive'') True \<and>
   snd (handleSubmit net_down cart_tea form_asha) =
     [Request GET_menu_test,
      Toast (js ''Order Failed'')
        (js ''Some items in your cart are no longer available. Please refresh your cart and try again.'')
        True] \<and>
   last (snd (handleSubmit net_aborting cart_tea form_asha)) =
     Toast (js ''Order Failed'') (js ''Failed to place order. Please try again.'') True"
proof -
  let ?od = "orderData form_asha cart_tea"
  let ?refusal = "\<lparr> ar_success = False, ar_message = Some (js ''Quantity must be positive''),
                    ar_data = backend_order_42 \<rparr>"
  have k: "fst (checkItemsAvailability net_refusing (map si_menuItemId (os_items ?od))) = Inr True"
    by (simp add: check_net_refusing)
  have r: "post_orders net_refusing ?od = Response False 400 (Inr ?refusal)"
    by (simp add: net_refusing_def net_ok_def)
  have m: "js ''Quantity must be positive'' \<noteq> []"
    by (simp add: js_def)
  have "\<exists>b. fst (checkItemsAvailability net_refusing (map si_menuItemId (os_items ?od))) = Inr b"
    using k by blast
  then have "fst (placeOrder net_refusing ?od) =
        Inl (JsError (case ar_message ?refusal of
                        None \<Rightarrow> js ''HTTP error! status: '' @ number_toString 400
                      | Some m \<Rightarrow> if m = [] then js ''HTTP error! status: '' @ number_toString 400
                                  else m))"
    using handleSubmit_failure [where net = net_refusing and od = ?od and status = 400
        and errorData = ?refusal] r
    by blast
  then have p: "fst (placeOrder net_refusing ?od) = Inl (JsError (js ''Quantity must be positive''))"
    using m by simp
  have n: "\<not> str_includes (js ''Quantity must be positive'') (js ''not available'')"
    by (simp add: js_def)
  have c: "customerName form_asha = js '' Asha ''"
    by (simp add: form_asha_def)
  have d: "checkItemsAvailability net_down ids = (Inl (JsError (js ''Failed to fetch'')), [GET_menu_test])" for ids
    by (simp add: checkItemsAvailability_def net_down_def)
  have a: "fst (placeOrder net_aborting ?od) = Inl NonError"
    by (simp add: placeOrder_def checkItemsAvailability_def net_aborting_def net_ok_def)
  show ?thesis
    using handleSubmit_failure [where s = form_asha and cart = cart_tea and net = net_refusing
        and history = "[NameChange (js '' Asha '')]" and err = "JsError (js ''Quantity must be positive'')"]
      handleSubmit_failure [where s = form_asha and cart = cart_tea and net = net_down]
      handleSubmit_failure [where s = form_asha and cart = cart_tea and net = net_aborting
        and history = "[NameChange (js '' Asha '')]" and err = NonError]
      form_asha_reached form_asha_valid cart_tea_nonempty p n c d a
    by simp
qed





text \<open>
  C3, as the code has it. The submission carries the trimmed name; the trimmed phone and
  email, or the text "Not provided" when they are blank; the trimmed order-level
  instructions, always present, as the empty string when blank; no payment method and no
  delivery address; and one item per cart line, in order, with the line's quantity, the
  line's instructions unchanged (not trimmed) and always present, as the empty string when
  absent, and the line's identifier as a number: a number is passed on, a string goes
  through \<open>parseInt\<close>. \<open>parseInt\<close> maps a non-empty string of digits to the double
  nearest to the integer it denotes; that is the integer itself when it is at most
  \<open>2^53\<close>, and so the decimal representation of an integer of magnitude at most \<open>2^53\<close>
  is mapped to that integer.
\<close>

theorem orderData_fields:
  "os_customerName (orderData s cart) = trim (customerName s) \<and>
   os_customerPhone (orderData s cart) =
     (if trim (phoneNumber s) = [] then js ''Not provided'' else trim (phoneNumber s)) \<and>
   os_customerEmail (orderData s cart) =
     Some (if trim (customerEmail s) = [] then js ''Not provided'' else trim (customerEmail s)) \<and>
   os_specialInstructions (orderData s cart) = Some (trim (generalInstructions s)) \<and>
   os_paymentMethod (orderData s cart) = None \<and>
   os_deliveryAddress (orderData s cart) = None \<and>
   map si_quantity (os_items (orderData s cart)) = map ci_quantity cart \<and>
   map si_specialInstructions (os_items (orderData s cart)) =
     map (\<lambda>item. Some (case ci_specialInstructions item of None \<Rightarrow> [] | Some t \<Rightarrow> t)) cart \<and>
   map si_menuItemId (os_items (orderData s cart)) = map (\<lambda>item. menuItemId (ci_id item)) cart \<and>
   menuItemId (IdNumber v) = v \<and>
   (\<bar>n\<bar> \<le> 2 ^ 53 \<longrightarrow> menuItemId (IdString (number_toString n)) = Num n) \<and>
   (ds \<noteq> [] \<and> list_all is_digit ds \<longrightarrow>
      menuItemId (IdString ds) = to_number False (radix_value 10 ds)) \<and>
   (ds \<noteq> [] \<and> list_all is_digit ds \<and> radix_value 10 ds \<le> 2 ^ 53 \<longrightarrow>
      menuItemId (IdString ds) = Num (int (radix_value 10 ds)))"
  by (auto simp: orderData_def or_else_def opt_or_else_def truthy_def comp_def menuItemId_def
      parseInt_number_toString parseInt_digits to_number_exact split: option.splits)

theorem orderData_fields_witness:
  "os_customerName (orderData form_asha cart_coffee) = js ''Asha'' \<and>
   os_customerPhone (orderData form_asha cart_coffee) = js ''Not provided'' \<and>
   os_customerEmail (orderData form_asha cart_coffee) = Some (js ''Not provided'') \<and>
   os_specialInstructions (orderData form_asha cart_coffee) = Some [] \<and>
   os_items (orderData form_asha cart_coffee) =
     [\<lparr> si_menuItemId = Num 12, si_quantity = 1,
        si_specialInstructions = Some (js '' less sugar '') \<rparr>] \<and>
   menuItemId (IdString (number_toString (- 7))) = Num (- 7) \<and>
   menuItemId (IdString (js ''9007199254740993'')) = Num 9007199254740992"
proof -
  have d: "js ''12'' \<noteq> [] \<and> list_all is_digit (js ''12'')"
    by (simp add: js_def is_digit_def)
  have v: "radix_value 10 (js ''12'') = 12"
    by (simp add: radix_value_def radix_digit_def js_def)
  have b: "js ''9007199254740993'' \<noteq> [] \<and> list_all is_digit (js ''9007199254740993'')"
    by (simp add: js_def is_digit_def)
  have w: "radix_value 10 (js ''9007199254740993'') = 9007199254740993"
    by (simp add: radix_value_def radix_digit_def js_def)
  have r: "to_number False 9007199254740993 = Num 9007199254740992"
    by (simp add: to_number_def round_to_double_def Let_def bits.simps)
  have t: "trim (customerName form_asha) = js ''Asha''" "trim (phoneNumber form_asha) = []"
    "trim (customerEmail form_asha) = []" "trim (generalInstructions form_asha) = []"
    by (simp_all add: form_asha_def initial_modal_def trim_def js_def is_white_space_def)
  have i: "os_items (orderData form_asha cart_coffee) =
     [\<lparr> si_menuItemId = menuItemId (IdString (js ''12'')), si_quantity = 1,
        si_specialInstructions = Some (js '' less sugar '') \<rparr>]"
    by (simp add: orderData_def cart_coffee_def opt_or_else_def or_else_def truthy_def js_def)
  have big: "menuItemId (IdString (js ''9007199254740993'')) = Num 9007199254740992"
    using orderData_fields [where ds = "js ''9007199254740993''"] b w r by simp
  have neg: "menuItemId (IdString (number_toString (- 7))) = Num (- 7)"
    using orderData_fields [where n = "- 7"] by simp
  have "js ''12'' \<noteq> [] \<and> list_all is_digit (js ''12'') \<and> radix_value 10 (js ''12'') \<le> 2 ^ 53 \<longrightarrow>
          menuItemId (IdString (js ''12'')) = Num (int (radix_value 10 (js ''12'')))"
    using orderData_fields [where ds = "js ''12''"] by blast
  then have twelve: "menuItemId (IdString (js ''12'')) = Num 12"
    using d v by simp
  have "os_customerName (orderData form_asha cart_coffee) = trim (customerName form_asha) \<and>
        os_customerPhone (orderData form_asha cart_coffee) =
          (if trim (phoneNumber form_asha) = [] then js ''Not provided''
           else trim (phoneNumber form_asha)) \<and>
        os_customerEmail (orderData form_asha cart_coffee) =
          Some (if trim (customerEmail form_asha) = [] then js ''Not provided''
                else trim (customerEmail form_asha)) \<and>
        os_specialInstructions (orderData form_asha cart_coffee) =
          Some (trim (generalInstructions form_asha))"
    using orderData_fields [where s = form_asha and cart = cart_coffee] by blast
  then show ?thesis
    using t i twelve big neg by simp
qed

text \<open>
  C3, as stated, fails: with blank order-level instructions and a cart line without
  instructions, both \<open>specialInstructions\<close> fields are sent as empty strings, not left
  out; and a line's instructions are sent with their surrounding blanks.
\<close>

theorem orderData_omits_counterexample:
  "fst (validateForm form_asha) \<and> cart_coffee \<noteq> [] \<and> cart_tea \<noteq> [] \<and>
   generalInstructions form_asha = [] \<and>
   os_specialInstructions (orderData form_asha cart_tea) = Some [] \<and>
   os_specialInstructions (orderData form_asha cart_tea) \<noteq> None \<and>
   map ci_specialInstructions cart_tea = [None] \<and>
   map si_specialInstructions (os_items (orderData form_asha cart_tea)) = [Some []] \<and>
   map si_specialInstructions (os_items (orderData form_asha cart_coffee)) = [Some (js '' less sugar '')] \<and>
   trim (js '' less sugar '') \<noteq> js '' less sugar ''"
proof -
  have g: "generalInstructions form_asha = []"
    by (simp add: form_asha_def initial_modal_def)
  have o: "os_specialInstructions (orderData form_asha cart_tea) = Some []"
    by (simp add: orderData_def g or_else_def truthy_def trim_def)
  have i: "map si_specialInstructions (os_items (orderData form_asha cart_tea)) = [Some []]"
    "map si_specialInstructions (os_items (orderData form_asha cart_coffee)) = [Some (js '' less sugar '')]"
    "map ci_specialInstructions cart_tea = [None]"
    by (simp_all add: orderData_def cart_tea_def cart_coffee_def opt_or_else_def or_else_def
        truthy_def js_def)
  have t: "trim (js '' less sugar '') \<noteq> js '' less sugar ''"
    by (simp add: trim_def js_def is_white_space_def)
  have c: "cart_coffee \<noteq> []" by (simp add: cart_coffee_def)
  show ?thesis using form_asha_valid cart_tea_nonempty c g o i t by simp
qed


subsection \<open>Order management\<close>

text \<open>
  C4, as the code has it. For an order whose status is delivered or cancelled, each of the
  five order-status buttons is disabled. Each of the three payment-status buttons is
  disabled exactly while the order is in the set of orders being updated, whatever the
  order's status.
\<close>

theorem terminal_status_buttons_disabled:
  "(o_orderStatus order = js ''delivered'' \<or> o_orderStatus order = js ''cancelled'' \<longrightarrow>
      (\<forall>b \<in> set (statusButtons s order). sbt_disabled b)) \<and>
   map sbt_status (statusButtons s order) =
     [js ''pending'', js ''preparing'', js ''ready'', js ''completed'', js ''cancelled''] \<and>
   map (\<lambda>b. (pbt_paymentStatus b, pbt_paymentMethod b)) (paymentButtons s order) =
     [(js ''pending'', None), (js ''paid'', Some (js ''cash'')), (js ''paid'', Some (js ''upi''))] \<and>
   (\<forall>b \<in> set (paymentButtons s order). pbt_disabled b = (o_id order \<in> updatingOrders s))"
  by (auto simp: statusButtons_def paymentButtons_def Let_def)

theorem terminal_status_buttons_disabled_witness:
  "o_orderStatus delivered_42 = js ''delivered'' \<and>
   length (statusButtons om_listed delivered_42) = 5 \<and>
   list_all sbt_disabled (statusButtons om_listed delivered_42)"
proof -
  have d: "o_orderStatus delivered_42 = js ''delivered''"
    by (simp add: delivered_42_def)
  have l: "length (statusButtons om_listed delivered_42) = 5"
    by (simp add: statusButtons_def Let_def)
  have "\<forall>b \<in> set (statusButtons om_listed delivered_42). sbt_disabled b"
    using terminal_status_buttons_disabled [of delivered_42 om_listed] d by blast
  then show ?thesis using d l by (simp add: list_all_iff)
qed

text \<open>
  C4, as stated, fails: for a delivered order that is not being updated, the three
  payment-status buttons are enabled.
\<close>

theorem terminal_payment_buttons_counterexample:
  "o_orderStatus delivered_42 = js ''delivered'' \<and>
   delivered_42 \<in> set (orders (om_listed\<lparr>orders := [delivered_42]\<rparr>)) \<and>
   map pbt_disabled (paymentButtons (om_listed\<lparr>orders := [delivered_42]\<rparr>) delivered_42)
     = [False, False, False]"
  by (simp add: delivered_42_def paymentButtons_def om_listed_def om_initial_def Let_def)


lemmas setters = setOrders_def setLoading_def setError_def setCurrentPage_def setTotalPages_def
  setTotalCount_def setUpdatingOrders_def toast_def issue_def

lemma fetchAllOrders_requests: "snd (fetchAllOrders net params) = [GET_orders (queryParams params)]"
  by (simp add: fetchAllOrders_def Let_def split: http_result.splits sum.splits)

lemma requests_of_append: "requests_of (a @ b) = requests_of a @ requests_of b"
  by (induction a rule: requests_of.induct) simp_all

lemma loadOrders_params_filters:
  "statusFilter t = statusFilter s \<Longrightarrow> paymentFilter t = paymentFilter s \<Longrightarrow>
   searchTerm t = searchTerm s \<Longrightarrow> loadOrders_params t page = loadOrders_params s page"
  by (simp add: loadOrders_params_def)

lemma loadOrders_begin_eq:
  "loadOrders_begin net page s =
     s\<lparr>loading := True, error := None,
       events := events s @ [SetLoading True, SetError None,
                             Requested (GET_orders (queryParams (loadOrders_params s page)))]\<rparr>"
  by (simp add: loadOrders_begin_def fetchAllOrders_requests setters)

lemma loadOrders_begin_params [simp]:
  "loadOrders_params (loadOrders_begin net page s) p = loadOrders_params s p"
  by (simp add: loadOrders_begin_eq loadOrders_params_def)

lemma loadOrders_fallback:
  assumes "1 < page" "fst (fetchAllOrders net (loadOrders_params s page)) = Inr response"
    "fo_orders response = []"
  shows "loadOrders net page s =
     (s\<lparr>loading := False, error := None, currentPage := 1,
        events := events s @
          [SetLoading True, SetError None,
           Requested (GET_orders (queryParams (loadOrders_params s page))),
           SetCurrentPage 1, SetLoading True, SetError None,
           Requested (GET_orders (queryParams (loadOrders_params s 1))),
           SetLoading False]\<rparr>, Some 1)"
  using assms
  by (simp add: loadOrders_def loadOrders_finish_def)
     (simp add: loadOrders_begin_eq setters loadOrders_params_def)

lemma loadOrders_rows:
  assumes "fst (fetchAllOrders net (loadOrders_params s page)) = Inr response"
    "fo_orders response \<noteq> [] \<or> page \<le> 1"
  shows "loadOrders net page s =
     (s\<lparr>loading := False, error := None, orders := fo_orders response,
        totalCount := fo_totalCount response, totalPages := fo_totalPages response,
        currentPage := fo_currentPage response,
        events := events s @
          [SetLoading True, SetError None,
           Requested (GET_orders (queryParams (loadOrders_params s page))),
           SetOrders (fo_orders response), SetTotalCount (fo_totalCount response),
           SetTotalPages (fo_totalPages response), SetCurrentPage (fo_currentPage response),
           SetLoading False]\<rparr>, None)"
proof -
  have "\<not> (length (fo_orders response) = 0 \<and> 1 < page)"
    using assms(2) by auto
  then show ?thesis using assms(1)
    by (simp add: loadOrders_def loadOrders_finish_def)
       (simp add: loadOrders_begin_eq setters)
qed

lemma loadOrders_thrown:
  assumes "fst (fetchAllOrders net (loadOrders_params s page)) = Inl err"
  shows "loadOrders net page s =
     (s\<lparr>loading := False,
        error := Some (case err of JsError message \<Rightarrow> message | NonError \<Rightarrow> js ''Failed to load orders''),
        events := events s @
          [SetLoading True, SetError None,
           Requested (GET_orders (queryParams (loadOrders_params s page))),
           SetError (Some (case err of JsError message \<Rightarrow> message | NonError \<Rightarrow> js ''Failed to load orders'')),
           Toasted (js ''Loading Failed'') (js ''Failed to load orders. Please try again.'') True,
           SetLoading False]\<rparr>, None)"
  using assms
  by (simp add: loadOrders_def loadOrders_finish_def)
     (simp add: loadOrders_begin_eq setters)

lemma loadOrders_finish_rows:
  assumes "fst (fetchAllOrders net (loadOrders_params t page)) = Inr response"
    "fo_orders response \<noteq> [] \<or> page \<le> 1"
  shows "loadOrders_finish net page t =
     (t\<lparr>loading := False, orders := fo_orders response,
        totalCount := fo_totalCount response, totalPages := fo_totalPages response,
        currentPage := fo_currentPage response,
        events := events t @
          [SetOrders (fo_orders response), SetTotalCount (fo_totalCount response),
           SetTotalPages (fo_totalPages response), SetCurrentPage (fo_currentPage response),
           SetLoading False]\<rparr>, None)"
proof -
  have "\<not> (length (fo_orders response) = 0 \<and> 1 < page)"
    using assms(2) by auto
  then show ?thesis using assms(1)
    by (simp add: loadOrders_finish_def) (simp add: setters)
qed

lemma loadOrders_finish_first: "page \<le> 1 \<Longrightarrow> snd (loadOrders_finish net page t) = None"
  by (simp add: loadOrders_finish_def split: sum.splits)

lemma settle_first: "page \<le> 1 \<Longrightarrow> settle net (t, Some page) = fst (loadOrders_finish net page t)"
proof -
  assume "page \<le> 1"
  then have "snd (loadOrders_finish net page t) = None"
    by (rule loadOrders_finish_first)
  then have "loadOrders_finish net page t = (fst (loadOrders_finish net page t), None)"
    by (metis prod.collapse)
  then have "settle net (loadOrders_finish net page t) = fst (loadOrders_finish net page t)"
    by (metis settle.simps(1))
  then show ?thesis by simp
qed

lemma number_toString_3: "number_toString 3 = js ''3''" "number_toString 1 = js ''1''"
  "number_toString 10 = js ''10''"
  by (simp_all add: number_toString_def dec_digits.simps digit_char_def js_def)

lemma query_om_listed:
  "queryParams (loadOrders_params om_listed page) =
     (if page = 0 then [] else [(js ''page'', number_toString page)]) @
     [(js ''limit'', js ''10''), (js ''sortBy'', js ''order_date''), (js ''order'', js ''desc''),
      (js ''includeCancelled'', js ''true'')]"
  by (simp add: queryParams_def loadOrders_params_def om_listed_def om_initial_def append_number_def
      append_string_def number_toString_3 truthy_def trim_def)
     (simp add: js_def)

lemma fetch_net_ok_3:
  "fst (fetchAllOrders net_ok (loadOrders_params om_listed 3)) =
     Inr \<lparr> fo_orders = [], fo_totalCount = 1, fo_totalPages = 1, fo_currentPage = 1 \<rparr>"
  by (simp add: fetchAllOrders_def query_om_listed number_toString_3)
     (simp add: net_ok_def page_of_def js_def)

lemma fetch_net_ok_1:
  "fst (fetchAllOrders net_ok (loadOrders_params om_listed 1)) =
     Inr \<lparr> fo_orders = [transformOrder backend_order_42], fo_totalCount = 1, fo_totalPages = 1,
           fo_currentPage = 1 \<rparr>"
  by (simp add: fetchAllOrders_def query_om_listed number_toString_3)
     (simp add: net_ok_def page_of_def js_def)

lemma updateOrderStatus_requests:
  "snd (updateOrderStatus net orderId
          \<lparr> su_status = mapFrontendToBackendStatus newStatus, su_changedBy = Some (js ''admin''),
            su_notes = None \<rparr>) = [PUT_order_status orderId (status_sent newStatus)]"
  by (simp add: updateOrderStatus_def status_sent_def Let_def opt_or_else_def or_else_def truthy_def
      js_def split: http_result.splits sum.splits)

text \<open>The state in which \<open>handleStatusUpdate\<close> calls \<open>loadOrders\<close>.\<close>

lemma handleStatusUpdate_unfold:
  "handleStatusUpdate net orderId newStatus s =
     (let t = s\<lparr>updatingOrders := insert orderId (updatingOrders s),
                orders := optimistic orderId newStatus (orders s),
                events := events s @
                  [SetUpdatingOrders (insert orderId (updatingOrders s)),
                   SetOrders (optimistic orderId newStatus (orders s)),
                   Requested (PUT_order_status orderId (status_sent newStatus))]\<rparr>;
          u = fst (loadOrders net (currentPage s) t)
      in (u\<lparr>updatingOrders := updatingOrders u - {orderId},
            events := events u @
              [outcome_toast newStatus
                 (fst (updateOrderStatus net orderId
                    \<lparr> su_status = mapFrontendToBackendStatus newStatus,
                      su_changedBy = Some (js ''admin''), su_notes = None \<rparr>)),
               SetUpdatingOrders (updatingOrders u - {orderId})]\<rparr>,
          snd (loadOrders net (currentPage s) t)))"
proof -
  obtain result requests where u: "updateOrderStatus net orderId
          \<lparr> su_status = mapFrontendToBackendStatus newStatus, su_changedBy = Some (js ''admin''),
            su_notes = None \<rparr> = (result, requests)"
    by (cases "updateOrderStatus net orderId
          \<lparr> su_status = mapFrontendToBackendStatus newStatus, su_changedBy = Some (js ''admin''),
            su_notes = None \<rparr>")
  then have r: "requests = [PUT_order_status orderId (status_sent newStatus)]"
    using updateOrderStatus_requests [of net orderId newStatus] by simp
  show ?thesis
    by (cases result)
       (simp_all add: handleStatusUpdate_def u r Let_def split_beta setters optimistic_def
          outcome_toast_def)
qed


lemma loadOrders_events_prefix:
  "\<exists>rest. events (fst (loadOrders net page t)) =
      events t @ [SetLoading True, SetError None,
                  Requested (GET_orders (queryParams (loadOrders_params t page)))] @ rest"
proof (cases "fst (fetchAllOrders net (loadOrders_params t page))")
  case (Inl err)
  then show ?thesis by (simp add: loadOrders_thrown)
next
  case (Inr response)
  show ?thesis
  proof (cases "fo_orders response \<noteq> [] \<or> page \<le> 1")
    case True
    with Inr show ?thesis by (simp add: loadOrders_rows)
  next
    case False
    with Inr show ?thesis by (simp add: loadOrders_fallback)
  qed
qed

lemma loadOrders_keeps_updating: "updatingOrders (fst (loadOrders net page t)) = updatingOrders t"
proof (cases "fst (fetchAllOrders net (loadOrders_params t page))")
  case (Inl err)
  then show ?thesis by (simp add: loadOrders_thrown)
next
  case (Inr response)
  show ?thesis
  proof (cases "fo_orders response \<noteq> [] \<or> page \<le> 1")
    case True
    with Inr show ?thesis by (simp add: loadOrders_rows)
  next
    case False
    with Inr show ?thesis by (simp add: loadOrders_fallback)
  qed
qed

lemma update_net_unwilling:
  "fst (updateOrderStatus net_unwilling 42
          \<lparr> su_status = js ''preparing'', su_changedBy = Some (js ''admin''), su_notes = None \<rparr>)
     = Inl (JsError (js ''Invalid status transition''))"
  by (simp add: updateOrderStatus_def net_unwilling_def Let_def opt_or_else_def or_else_def
      truthy_def js_def)

lemma fetch_net_unwilling:
  "fst (fetchAllOrders net_unwilling (loadOrders_params om_listed 1))
     = Inl (JsError (js ''HTTP error! status: 500''))"
  by (simp add: fetchAllOrders_def net_unwilling_def Let_def number_toString_def dec_digits.simps
      digit_char_def js_def)

lemma preparing_mapped: "mapFrontendToBackendStatus (js ''preparing'') = js ''preparing''"
  by (simp add: mapFrontendToBackendStatus_def js_def)

lemma fetch_net_empty:
  "fst (fetchAllOrders net_empty (loadOrders_params om_listed page)) =
     Inr \<lparr> fo_orders = [], fo_totalCount = 1, fo_totalPages = 1, fo_currentPage = 1 \<rparr>"
  by (simp add: fetchAllOrders_def net_empty_def net_ok_def page_of_def)

lemma params_om_third: "loadOrders_params om_third page = loadOrders_params om_listed page"
  by (simp add: om_third_def loadOrders_params_def)

text \<open>
  C7. When \<open>loadOrders\<close> is called for a page beyond the first and the backend answers
  with no rows, the call sets the current page to 1 and requests page 1, and returns with
  that request in flight; the empty answer is never written to the list, which stays as it
  was until page 1 is answered and then holds the rows of page 1. When \<open>loadOrders\<close> is
  called for page 1 (or below), it issues exactly one request whatever the answer, and an
  answer with no rows is shown as the empty list.
\<close>

theorem loadOrders_falls_back_to_first_page:
  "(1 < page \<and> fst (fetchAllOrders net (loadOrders_params s page)) = Inr response \<and>
    fo_orders response = [] \<longrightarrow>
      snd (loadOrders net page s) = Some 1 \<and>
      events (fst (loadOrders net page s)) = events s @
        [SetLoading True, SetError None,
         Requested (GET_orders (queryParams (loadOrders_params s page))),
         SetCurrentPage 1, SetLoading True, SetError None,
         Requested (GET_orders (queryParams (loadOrders_params s 1))),
         SetLoading False] \<and>
      currentPage (fst (loadOrders net page s)) = 1 \<and>
      orders (fst (loadOrders net page s)) = orders s \<and>
      (\<forall>first. fst (fetchAllOrders net (loadOrders_params s 1)) = Inr first \<longrightarrow>
         orders (settle net (loadOrders net page s)) = fo_orders first \<and>
         currentPage (settle net (loadOrders net page s)) = fo_currentPage first)) \<and>
   (page \<le> 1 \<longrightarrow>
      snd (loadOrders net page s) = None \<and>
      requests_of (events (fst (loadOrders net page s))) =
        requests_of (events s) @ [GET_orders (queryParams (loadOrders_params s page))]) \<and>
   (page \<le> 1 \<and> fst (fetchAllOrders net (loadOrders_params s page)) = Inr response \<and>
    fo_orders response = [] \<longrightarrow> orders (fst (loadOrders net page s)) = [])"
proof -
  have fallen: "snd (loadOrders net page s) = Some 1 \<and>
      events (fst (loadOrders net page s)) = events s @
        [SetLoading True, SetError None,
         Requested (GET_orders (queryParams (loadOrders_params s page))),
         SetCurrentPage 1, SetLoading True, SetError None,
         Requested (GET_orders (queryParams (loadOrders_params s 1))),
         SetLoading False] \<and>
      currentPage (fst (loadOrders net page s)) = 1 \<and>
      orders (fst (loadOrders net page s)) = orders s"
    if "1 < page" "fst (fetchAllOrders net (loadOrders_params s page)) = Inr response"
       "fo_orders response = []"
    using that by (simp add: loadOrders_fallback)
  have later: "orders (settle net (loadOrders net page s)) = fo_orders first \<and>
         currentPage (settle net (loadOrders net page s)) = fo_currentPage first"
    if "1 < page" "fst (fetchAllOrders net (loadOrders_params s page)) = Inr response"
       "fo_orders response = []" "fst (fetchAllOrders net (loadOrders_params s 1)) = Inr first"
      for first
  proof -
    let ?t = "fst (loadOrders net page s)"
    have p: "loadOrders_params ?t 1 = loadOrders_params s 1"
      using that by (simp add: loadOrders_fallback loadOrders_params_def)
    have "loadOrders net page s = (?t, Some 1)"
      using that by (simp add: loadOrders_fallback)
    then have "settle net (loadOrders net page s) = fst (loadOrders_finish net 1 ?t)"
      using settle_first [of 1 net ?t] by simp
    then show ?thesis
      using that(4) p by (simp add: loadOrders_finish_rows)
  qed
  have one: "snd (loadOrders net page s) = None \<and>
      requests_of (events (fst (loadOrders net page s))) =
        requests_of (events s) @ [GET_orders (queryParams (loadOrders_params s page))]"
    if "page \<le> 1"
  proof (cases "fst (fetchAllOrders net (loadOrders_params s page))")
    case (Inl err)
    then show ?thesis by (simp add: loadOrders_thrown requests_of_append)
  next
    case (Inr r)
    then show ?thesis using that by (simp add: loadOrders_rows requests_of_append)
  qed
  have shown: "orders (fst (loadOrders net page s)) = []"
    if "page \<le> 1" "fst (fetchAllOrders net (loadOrders_params s page)) = Inr response"
       "fo_orders response = []"
    using that by (simp add: loadOrders_rows)
  show ?thesis using fallen later one shown by blast
qed


theorem loadOrders_falls_back_to_first_page_witness:
  "snd (loadOrders net_ok 3 om_listed) = Some 1 \<and>
   requests_of (events (fst (loadOrders net_ok 3 om_listed))) =
     [GET_orders (queryParams (loadOrders_params om_listed 3)),
      GET_orders (queryParams (loadOrders_params om_listed 1))] \<and>
   currentPage (fst (loadOrders net_ok 3 om_listed)) = 1 \<and>
   orders (fst (loadOrders net_ok 3 om_listed)) = [transformOrder backend_order_42] \<and>
   orders (settle net_ok (loadOrders net_ok 3 om_listed)) = [transformOrder backend_order_42] \<and>
   snd (loadOrders net_ok 1 om_listed) = None \<and>
   requests_of (events (fst (loadOrders net_ok 1 om_listed))) =
     [GET_orders (queryParams (loadOrders_params om_listed 1))] \<and>
   snd (loadOrders net_empty 1 om_listed) = None \<and>
   requests_of (events (fst (loadOrders net_empty 1 om_listed))) =
     [GET_orders (queryParams (loadOrders_params om_listed 1))] \<and>
   orders (fst (loadOrders net_empty 1 om_listed)) = []"
proof -
  have e: "events om_listed = []" "orders om_listed = [transformOrder backend_order_42]"
    by (simp_all add: om_listed_def om_initial_def)
  show ?thesis
    using loadOrders_falls_back_to_first_page [where page = 3 and net = net_ok and s = om_listed
        and response = "\<lparr> fo_orders = [], fo_totalCount = 1, fo_totalPages = 1, fo_currentPage = 1 \<rparr>"]
      loadOrders_falls_back_to_first_page [where page = 1 and net = net_ok and s = om_listed]
      loadOrders_falls_back_to_first_page [where page = 1 and net = net_empty and s = om_listed
        and response = "\<lparr> fo_orders = [], fo_totalCount = 1, fo_totalPages = 1, fo_currentPage = 1 \<rparr>"]
      fetch_net_ok_3 fetch_net_ok_1 fetch_net_empty [of 1] e
    by simp
qed

text \<open>
  The effects of \<open>handleStatusUpdate\<close>, for every answer of the network. It first adds the
  order to the updating set and writes the new status into the list, then calls the status
  endpoint, then starts the re-fetch of the current page, whether the endpoint call
  returned or threw, and ends by taking the order out of the updating set. The list after
  the handler is given for each answer of the re-fetch.
\<close>

lemma handleStatusUpdate_effects:
  "(\<exists>rest. events (fst (handleStatusUpdate net orderId newStatus s)) =
      events s @
      [SetUpdatingOrders (insert orderId (updatingOrders s)),
       SetOrders (optimistic orderId newStatus (orders s)),
       Requested (PUT_order_status orderId (status_sent newStatus)),
       SetLoading True, SetError None,
       Requested (GET_orders (queryParams (loadOrders_params s (currentPage s))))] @ rest @
      [SetUpdatingOrders (updatingOrders s - {orderId})]) \<and>
   updatingOrders (fst (handleStatusUpdate net orderId newStatus s)) = updatingOrders s - {orderId} \<and>
   (\<forall>response. fst (fetchAllOrders net (loadOrders_params s (currentPage s))) = Inr response \<and>
      (fo_orders response \<noteq> [] \<or> currentPage s \<le> 1) \<longrightarrow>
        orders (fst (handleStatusUpdate net orderId newStatus s)) = fo_orders response \<and>
        snd (handleStatusUpdate net orderId newStatus s) = None) \<and>
   (\<forall>err. fst (fetchAllOrders net (loadOrders_params s (currentPage s))) = Inl err \<longrightarrow>
        orders (fst (handleStatusUpdate net orderId newStatus s)) =
          optimistic orderId newStatus (orders s) \<and>
        error (fst (handleStatusUpdate net orderId newStatus s)) \<noteq> None \<and>
        snd (handleStatusUpdate net orderId newStatus s) = None) \<and>
   (\<forall>response. fst (fetchAllOrders net (loadOrders_params s (currentPage s))) = Inr response \<and>
      fo_orders response = [] \<and> 1 < currentPage s \<longrightarrow>
        orders (fst (handleStatusUpdate net orderId newStatus s)) =
          optimistic orderId newStatus (orders s) \<and>
        snd (handleStatusUpdate net orderId newStatus s) = Some 1 \<and>
        (\<forall>first. fst (fetchAllOrders net (loadOrders_params s 1)) = Inr first \<longrightarrow>
           orders (settle net (handleStatusUpdate net orderId newStatus s)) = fo_orders first))"
proof -
  let ?t = "s\<lparr>updatingOrders := insert orderId (updatingOrders s),
                orders := optimistic orderId newStatus (orders s),
                events := events s @
                  [SetUpdatingOrders (insert orderId (updatingOrders s)),
                   SetOrders (optimistic orderId newStatus (orders s)),
                   Requested (PUT_order_status orderId (status_sent newStatus))]\<rparr>"
  let ?h = "handleStatusUpdate net orderId newStatus s"
  have p: "loadOrders_params ?t page = loadOrders_params s page" for page
    by (simp add: loadOrders_params_def)
  obtain rest where rest: "events (fst (loadOrders net (currentPage s) ?t)) =
      events ?t @ [SetLoading True, SetError None,
                  Requested (GET_orders (queryParams (loadOrders_params ?t (currentPage s))))] @ rest"
    using loadOrders_events_prefix [of net "currentPage s" ?t] by blast
  have k: "updatingOrders (fst (loadOrders net (currentPage s) ?t)) = insert orderId (updatingOrders s)"
    by (simp add: loadOrders_keeps_updating)
  have ev: "\<exists>rest. events (fst ?h) =
      events s @
      [SetUpdatingOrders (insert orderId (updatingOrders s)),
       SetOrders (optimistic orderId newStatus (orders s)),
       Requested (PUT_order_status orderId (status_sent newStatus)),
       SetLoading True, SetError None,
       Requested (GET_orders (queryParams (loadOrders_params s (currentPage s))))] @ rest @
      [SetUpdatingOrders (updatingOrders s - {orderId})]"
    by (simp add: handleStatusUpdate_unfold Let_def rest k p)
  have un: "updatingOrders (fst ?h) = updatingOrders s - {orderId}"
    by (simp add: handleStatusUpdate_unfold Let_def k)
  have rows: "orders (fst ?h) = fo_orders response \<and> snd ?h = None"
    if "fst (fetchAllOrders net (loadOrders_params s (currentPage s))) = Inr response"
       "fo_orders response \<noteq> [] \<or> currentPage s \<le> 1" for response
    using that by (simp add: handleStatusUpdate_unfold Let_def p loadOrders_rows)
  have thrown: "orders (fst ?h) = optimistic orderId newStatus (orders s) \<and>
        error (fst ?h) \<noteq> None \<and> snd ?h = None"
    if "fst (fetchAllOrders net (loadOrders_params s (currentPage s))) = Inl err" for err
    using that by (simp add: handleStatusUpdate_unfold Let_def p loadOrders_thrown)
  have fallen: "orders (fst ?h) = optimistic orderId newStatus (orders s) \<and> snd ?h = Some 1"
    if "fst (fetchAllOrders net (loadOrders_params s (currentPage s))) = Inr response"
       "fo_orders response = []" "1 < currentPage s" for response
    using that by (simp add: handleStatusUpdate_unfold Let_def p loadOrders_fallback)
  have settled: "orders (settle net ?h) = fo_orders first"
    if "fst (fetchAllOrders net (loadOrders_params s (currentPage s))) = Inr response"
       "fo_orders response = []" "1 < currentPage s"
       "fst (fetchAllOrders net (loadOrders_params s 1)) = Inr first" for response first
  proof -
    have f: "fst (fetchAllOrders net (loadOrders_params ?t (currentPage s))) = Inr response"
      using that(1) p by simp
    have q: "loadOrders_params (fst ?h) 1 = loadOrders_params s 1"
      unfolding handleStatusUpdate_unfold Let_def loadOrders_fallback [OF that(3) f that(2)]
      by (simp add: loadOrders_params_def)
    have "?h = (fst ?h, Some 1)"
      using fallen [OF that(1,2,3)] by (metis prod.collapse)
    then have "settle net ?h = fst (loadOrders_finish net 1 (fst ?h))"
      using settle_first [of 1 net "fst ?h"] by simp
    then show ?thesis
      using that(4) q by (simp add: loadOrders_finish_rows)
  qed
  show ?thesis
    using ev un rows thrown fallen settled by blast
qed

lemma handleStatusUpdate_effects_example:
  "orders (fst (handleStatusUpdate net_ok 42 (js ''preparing'') om_listed)) =
     [transformOrder backend_order_42] \<and>
   snd (handleStatusUpdate net_ok 42 (js ''preparing'') om_listed) = None \<and>
   updatingOrders (fst (handleStatusUpdate net_ok 42 (js ''preparing'') om_listed)) = {} \<and>
   orders (fst (handleStatusUpdate net_unwilling 42 (js ''preparing'') om_listed)) =
     optimistic 42 (js ''preparing'') [transformOrder backend_order_42] \<and>
   error (fst (handleStatusUpdate net_unwilling 42 (js ''preparing'') om_listed)) \<noteq> None \<and>
   snd (handleStatusUpdate net_ok 42 (js ''preparing'') om_third) = Some 1 \<and>
   orders (fst (handleStatusUpdate net_ok 42 (js ''preparing'') om_third)) =
     optimistic 42 (js ''preparing'') [transformOrder backend_order_42] \<and>
   updatingOrders (fst (handleStatusUpdate net_ok 42 (js ''preparing'') om_third)) = {} \<and>
   orders (settle net_ok (handleStatusUpdate net_ok 42 (js ''preparing'') om_third)) =
     [transformOrder backend_order_42]"
proof -
  have c: "currentPage om_listed = 1" "updatingOrders om_listed = {}"
    "orders om_listed = [transformOrder backend_order_42]"
    by (simp_all add: om_listed_def om_initial_def)
  have t: "currentPage om_third = 3" "updatingOrders om_third = {}"
    "orders om_third = [transformOrder backend_order_42]"
    by (simp_all add: om_third_def om_listed_def om_initial_def)
  show ?thesis
    using handleStatusUpdate_effects [where net = net_ok and s = om_listed and orderId = 42
        and newStatus = "js ''preparing''"]
      handleStatusUpdate_effects [where net = net_unwilling and s = om_listed and orderId = 42
        and newStatus = "js ''preparing''"]
      handleStatusUpdate_effects [where net = net_ok and s = om_third and orderId = 42
        and newStatus = "js ''preparing''"]
      fetch_net_ok_1 fetch_net_ok_3 fetch_net_unwilling c t params_om_third
    by simp
qed


text \<open>
  C2. After a status transition the displayed list is to reflect the backend's status of
  the order once the handler has cleared the updating marker, on endpoint success and on
  endpoint failure; the source says so itself where it calls \<open>loadOrders\<close> in the
  \<open>catch\<close> block ("Revert local change on error"). The code does not do this at the
  following input: the list shows order 42 as pending, the backend refuses the transition
  to preparing with status 400, and it answers the re-fetch of the page with status 500.
  \<open>loadOrders\<close> catches that failure itself and leaves the list as it is, so the handler
  ends with nothing in flight, the order out of the updating set, and the list showing
  order 42 as preparing, a status the backend has refused.
\<close>

theorem handleStatusUpdate_keeps_refused_status:
  "fst (updateOrderStatus net_unwilling 42
          \<lparr> su_status = js ''preparing'', su_changedBy = Some (js ''admin''), su_notes = None \<rparr>)
     = Inl (JsError (js ''Invalid status transition'')) \<and>
   fst (fetchAllOrders net_unwilling (loadOrders_params om_listed (currentPage om_listed)))
     = Inl (JsError (js ''HTTP error! status: 500'')) \<and>
   map o_orderStatus (orders om_listed) = [js ''pending''] \<and>
   snd (handleStatusUpdate net_unwilling 42 (js ''preparing'') om_listed) = None \<and>
   map o_orderStatus (orders (fst (handleStatusUpdate net_unwilling 42 (js ''preparing'') om_listed)))
     = [js ''preparing''] \<and>
   updatingOrders (fst (handleStatusUpdate net_unwilling 42 (js ''preparing'') om_listed)) = {} \<and>
   requests_of (events (fst (handleStatusUpdate net_unwilling 42 (js ''preparing'') om_listed))) =
     [PUT_order_status 42 (status_sent (js ''preparing'')),
      GET_orders (queryParams (loadOrders_params om_listed 1))]"
proof -
  have c: "currentPage om_listed = 1" "updatingOrders om_listed = {}" "events om_listed = []"
    by (simp_all add: om_listed_def om_initial_def)
  have o: "map o_orderStatus (orders om_listed) = [js ''pending'']"
    by (simp add: om_listed_def om_initial_def transformOrder_def backend_order_42_def)
  have m: "map o_orderStatus (optimistic 42 (js ''preparing'') (orders om_listed)) = [js ''preparing'']"
    by (simp add: optimistic_def preparing_mapped om_listed_def om_initial_def transformOrder_def
        backend_order_42_def)
  have p: "loadOrders_params (om_listed\<lparr>updatingOrders := U, orders := L, events := E\<rparr>) page
             = loadOrders_params om_listed page" for U L E page
    by (simp add: loadOrders_params_def)
  show ?thesis
    using update_net_unwilling fetch_net_unwilling o m
    by (simp add: c handleStatusUpdate_unfold Let_def p loadOrders_thrown preparing_mapped
        outcome_toast_def)
qed


end
